theory Spec2Isabelle
  imports Complex_Main
begin

section \<open>Numbers\<close>

text \<open>
  Python's floats are modelled as the real numbers, its unbounded integers as \<open>int\<close>.
  \<open>int(x)\<close> on a float truncates towards zero; \<open>x // d\<close> on a float is the floor of
  the quotient, and on integers it is \<open>div\<close>.
\<close>

definition py_int :: "real \<Rightarrow> int" where
  "py_int x = (if 0 \<le> x then \<lfloor>x\<rfloor> else \<lceil>x\<rceil>)"

definition floordiv :: "real \<Rightarrow> real \<Rightarrow> int" where
  "floordiv x d = \<lfloor>x / d\<rfloor>"

section \<open>Errors and outcomes\<close>

text \<open>
  Every method of the program wraps its body in \<open>try: ... except Exception\<close>, logs the
  error and goes on. A body therefore either ends normally or is left at the raising
  statement, and in both cases the mutations made so far stay. \<open>Raised e s\<close> is the state
  \<open>s\<close> at the statement that raised \<open>e\<close>.
\<close>

datatype py_error = KeyError | ZeroDivisionError | ValueError | IndexError

datatype 's outcome = Normal 's | Raised py_error 's

fun state_of :: "'s outcome \<Rightarrow> 's" where
  "state_of (Normal s) = s"
| "state_of (Raised e s) = s"

definition and_then :: "'s outcome \<Rightarrow> ('s \<Rightarrow> 's outcome) \<Rightarrow> 's outcome" where
  "and_then m f = (case m of Normal s \<Rightarrow> f s | Raised e s \<Rightarrow> Raised e s)"

primrec for_each :: "'i list \<Rightarrow> ('i \<Rightarrow> 's \<Rightarrow> 's outcome) \<Rightarrow> 's \<Rightarrow> 's outcome" where
  "for_each [] body s = Normal s"
| "for_each (i # rest) body s =
     (case body i s of Normal s' \<Rightarrow> for_each rest body s' | Raised e s' \<Rightarrow> Raised e s')"

text \<open>
  A method body is a list of statements run in order; \<open>lift\<close> is a statement that
  cannot raise.
\<close>

definition run :: "('s \<Rightarrow> 's outcome) list \<Rightarrow> 's \<Rightarrow> 's outcome" where
  "run steps s = for_each steps (\<lambda>step. step) s"

definition lift :: "('s \<Rightarrow> 's) \<Rightarrow> 's \<Rightarrow> 's outcome" where
  "lift f s = Normal (f s)"

section \<open>Random draws\<close>

text \<open>
  The values drawn from \<open>random\<close> are parameters of the model. \<open>random.random()\<close> is a
  real \<open>u\<close>; \<open>random.randint(lo, hi)\<close>, \<open>random.choice\<close> and \<open>random.shuffle\<close> are driven
  by natural numbers, reduced to the range the source draws from, so that every
  parameter gives a value the source can draw and every such value is given by some
  parameter.
\<close>

definition randint :: "int \<Rightarrow> int \<Rightarrow> nat \<Rightarrow> int" where
  "randint lo hi n = lo + int (n mod nat (hi - lo + 1))"

definition uniform :: "real \<Rightarrow> real \<Rightarrow> real \<Rightarrow> real" where
  "uniform a b v = a + (b - a) * min 1 (max 0 v)"

fun shuffle :: "nat list \<Rightarrow> 'a list \<Rightarrow> 'a list" where
  "shuffle [] xs = xs"
| "shuffle (k # ks) xs =
     (if xs = [] then []
      else let i = k mod length xs in xs ! i # shuffle ks (take i xs @ drop (Suc i) xs))"

section \<open>Python built-ins\<close>

text \<open>\<open>max(xs, key=f)\<close> returns the first element with the greatest key.\<close>

definition max_by_first :: "('a \<Rightarrow> 'b::linorder) \<Rightarrow> 'a \<Rightarrow> 'a list \<Rightarrow> 'a" where
  "max_by_first f x xs = foldl (\<lambda>best y. if f best < f y then y else best) x xs"

text \<open>
  \<open>sorted(xs, key=f, reverse=True)\<close> is stable: elements with equal keys keep their
  order.
\<close>

primrec insert_desc :: "('a \<Rightarrow> 'b::linorder) \<Rightarrow> 'a \<Rightarrow> 'a list \<Rightarrow> 'a list" where
  "insert_desc f x [] = [x]"
| "insert_desc f x (y # ys) = (if f x < f y then y # insert_desc f x ys else x # y # ys)"

definition sorted_desc :: "('a \<Rightarrow> 'b::linorder) \<Rightarrow> 'a list \<Rightarrow> 'a list" where
  "sorted_desc f xs = foldr (insert_desc f) xs []"

section \<open>RLAgent\<close>

datatype invest_action = Economy | Environment | Infrastructure
datatype agree_action = Join | Refuse
datatype war_action = Attack | Peace

text \<open>
  A Q-table is a \<open>defaultdict\<close> from state tuples to a dictionary with one value per
  action. The keys of that inner dictionary are fixed by the table's default factory,
  so the inner dictionary is a function on the action type; its keys in insertion order
  are given as a first key and the list of the others.
\<close>

type_synonym state_key = "int list"
type_synonym 'a q_table = "state_key \<rightharpoonup> ('a \<Rightarrow> real)"
type_synonym 'a action_keys = "'a \<times> 'a list"

definition invest_keys :: "invest_action action_keys" where
  "invest_keys = (Economy, [Environment, Infrastructure])"

definition agree_keys :: "agree_action action_keys" where
  "agree_keys = (Join, [Refuse])"

definition war_keys :: "war_action action_keys" where
  "war_keys = (Attack, [Peace])"

definition keys_list :: "'a action_keys \<Rightarrow> 'a list" where
  "keys_list d = fst d # snd d"

record rl_agent =
  invest_q :: "invest_action q_table"
  agree_q :: "agree_action q_table"
  war_q :: "war_action q_table"

definition alpha :: real where "alpha = 0.1"
definition gamma :: real where "gamma = 0.9"
definition epsilon :: real where "epsilon = 0.3"

text \<open>Reading \<open>q_table[state]\<close> inserts the default entry when the key is missing.\<close>

definition q_touch :: "'a q_table \<Rightarrow> state_key \<Rightarrow> 'a q_table" where
  "q_touch q s = (case q s of None \<Rightarrow> q(s \<mapsto> (\<lambda>a. 0)) | Some e \<Rightarrow> q)"

definition q_entry :: "'a q_table \<Rightarrow> state_key \<Rightarrow> 'a \<Rightarrow> real" where
  "q_entry q s = (case q s of None \<Rightarrow> (\<lambda>a. 0) | Some e \<Rightarrow> e)"

definition max_value :: "'a action_keys \<Rightarrow> ('a \<Rightarrow> real) \<Rightarrow> real" where
  "max_value d e = foldl max (e (fst d)) (map e (snd d))"

text \<open>
  \<open>choose_action\<close>: \<open>u\<close> is the value of \<open>random.random()\<close> and \<open>k\<close> selects the
  element \<open>random.choice\<close> returns.
\<close>

definition choose_action ::
  "'a action_keys \<Rightarrow> real \<Rightarrow> nat \<Rightarrow> 'a q_table \<Rightarrow> state_key \<Rightarrow> 'a \<times> 'a q_table" where
  "choose_action d u k q s =
     (let q' = q_touch q s in
      (if u < epsilon then keys_list d ! (k mod length (keys_list d))
       else max_by_first (q_entry q' s) (fst d) (snd d), q'))"

definition update ::
  "'a action_keys \<Rightarrow> 'a q_table \<Rightarrow> state_key \<Rightarrow> 'a \<Rightarrow> real \<Rightarrow> state_key \<Rightarrow> 'a q_table" where
  "update d q s a reward new_state =
     (let q1 = q_touch q new_state;
          max_next = max_value d (q_entry q1 new_state);
          q2 = q_touch q1 s;
          e = q_entry q2 s
      in q2(s \<mapsto> e(a := e a + alpha * (reward + gamma * max_next - e a))))"

section \<open>Country, Ecosystem and World\<close>

datatype government = GovRight | GovLeft
datatype resource = Oil | Coal | Gas | Forest

definition resource_keys :: "resource list" where
  "resource_keys = [Oil, Coal, Gas, Forest]"

record country =
  name :: string
  population :: int
  resources :: "resource \<Rightarrow> int"
  natural_disaster_risk :: real
  government :: government
  ideology_score :: int
  money :: int
  military_power :: int
  happiness :: real
  tech_level :: int
  education_level :: int
  pollution :: real
  production :: real
  investments :: "invest_action \<Rightarrow> int"
  infrastructure_level :: real
  rebellion_risk :: real
  year :: int
  has_rebelled_this_year :: bool
  tension_score :: "string \<rightharpoonup> int"
  environment_agreement :: int
  agent :: rl_agent

record ecosystem =
  global_pollution :: real
  regional_pollution :: "string \<rightharpoonup> real"
  ecosystem_health :: real
  alarm_level :: int

datatype global_event = Pandemic | Meteor | Economic_crash | Blackout

text \<open>
  \<open>World.countries\<close> and \<open>Ecosystem.countries\<close> are the same list object, so the model
  has one list; a country object is identified by its position in it.
\<close>

record world =
  countries :: "country list"
  global_events :: "global_event \<rightharpoonup> bool"
  global_events_done :: "int \<rightharpoonup> bool"
  ecosystem :: ecosystem

definition upd_country :: "nat \<Rightarrow> (country \<Rightarrow> country) \<Rightarrow> world \<Rightarrow> world" where
  "upd_country i f w = w\<lparr>countries := (countries w)[i := f (countries w ! i)]\<rparr>"

definition upd_ecosystem :: "(ecosystem \<Rightarrow> ecosystem) \<Rightarrow> world \<Rightarrow> world" where
  "upd_ecosystem f w = w\<lparr>ecosystem := f (ecosystem w)\<rparr>"

definition indices :: "world \<Rightarrow> nat list" where
  "indices w = [0..<length (countries w)]"

text \<open>\<open>regional_pollution[n] += x\<close> raises KeyError when \<open>n\<close> is not a key.\<close>

definition rp_add :: "string \<Rightarrow> real \<Rightarrow> world \<Rightarrow> world outcome" where
  "rp_add n x w =
     (case regional_pollution (ecosystem w) n of
        None \<Rightarrow> Raised KeyError w
      | Some v \<Rightarrow> Normal (upd_ecosystem (\<lambda>e. e\<lparr>regional_pollution := (regional_pollution e)(n \<mapsto> v + x)\<rparr>) w))"

subsection \<open>RLAgent.get\_state\<close>

definition get_state :: "country \<Rightarrow> real \<Rightarrow> int option \<Rightarrow> state_key" where
  "get_state c eco_health tension =
     (let hap = min 5 (floordiv (happiness c) 20);
          pol = min 5 (floordiv (pollution c) 20);
          infra = min 5 (floordiv (infrastructure_level c) 20);
          prod = min 5 (py_int (production c) div 50);
          gov = (if government c = GovRight then 0 else 1);
          eco = min 5 (floordiv eco_health 20);
          state = [hap, pol, infra, prod, gov, eco]
      in case tension of
           None \<Rightarrow> state
         | Some t \<Rightarrow> state @ [min 5 (max 0 ((t - 50) div 10))])"

section \<open>Ecosystem operations\<close>

subsection \<open>update\_pollution\<close>

definition neighbors :: "world \<Rightarrow> nat \<Rightarrow> nat list" where
  "neighbors w i = filter (\<lambda>j. j \<noteq> i) (indices w)"

definition regional_value :: "world \<Rightarrow> nat \<Rightarrow> real" where
  "regional_value w i =
     pollution (countries w ! i) + sum_list (map (\<lambda>j. pollution (countries w ! j) * 0.1) (neighbors w i))"

definition pollution_penalty :: "country \<Rightarrow> country" where
  "pollution_penalty c =
     c\<lparr>happiness := max 0 (happiness c - 5),
       resources := (resources c)(Forest := max 0 (resources c Forest - 10)),
       rebellion_risk := rebellion_risk c + 0.05\<rparr>"

text \<open>
  One round of the loop over the countries: the local dictionary gets the entry of
  country \<open>i\<close>, and the country is penalised when that entry exceeds 50.
\<close>

definition update_pollution_country ::
  "nat \<Rightarrow> (string \<rightharpoonup> real) \<times> world \<Rightarrow> (string \<rightharpoonup> real) \<times> world" where
  "update_pollution_country i st =
     (let rp = fst st; w = snd st;
          v = regional_value w i;
          rp' = rp(name (countries w ! i) \<mapsto> v)
      in (rp', if v > 50 then upd_country i pollution_penalty w else w))"

definition update_pollution_body :: "world \<Rightarrow> world outcome" where
  "update_pollution_body w =
     (if countries w = [] then Raised ZeroDivisionError w
      else
        let gp = sum_list (map pollution (countries w)) / real (length (countries w));
            w1 = upd_ecosystem (\<lambda>e. e\<lparr>global_pollution := gp\<rparr>) w;
            st = fold update_pollution_country (indices w1) (Map.empty, w1)
        in Normal (upd_ecosystem
             (\<lambda>e. e\<lparr>regional_pollution := fst st,
                    ecosystem_health :=
                      max 0 (min 100 (ecosystem_health e - real_of_int (py_int (global_pollution e / 5))))\<rparr>)
             (snd st)))"

definition update_pollution :: "world \<Rightarrow> world" where
  "update_pollution w = state_of (update_pollution_body w)"

subsection \<open>sound\_alarm\<close>

definition thresholds :: "real list" where
  "thresholds = [30, 50, 70]"

definition enumerate_from :: "int \<Rightarrow> 'a list \<Rightarrow> (int \<times> 'a) list" where
  "enumerate_from start xs = zip (map (\<lambda>k. start + int k) [0..<length xs]) xs"

text \<open>The loop leaves the method at the first threshold that escalates.\<close>

fun alarm_loop :: "(int \<times> real) list \<Rightarrow> ecosystem \<Rightarrow> ecosystem" where
  "alarm_loop [] e = e"
| "alarm_loop ((i, threshold) # rest) e =
     (if global_pollution e > threshold \<and> alarm_level e < i then e\<lparr>alarm_level := i\<rparr>
      else alarm_loop rest e)"

definition sound_alarm :: "world \<Rightarrow> world" where
  "sound_alarm w = upd_ecosystem (alarm_loop (enumerate_from 1 thresholds)) w"

subsection \<open>trigger\_disasters\<close>

definition multiplier :: "real \<Rightarrow> real" where
  "multiplier infrastructure = (if infrastructure < 50 then 2 else (if infrastructure > 70 then 0.5 else 1))"

definition keys_present :: "world \<Rightarrow> bool" where
  "keys_present w = list_all (\<lambda>c. regional_pollution (ecosystem w) (name c) \<noteq> None) (countries w)"

definition rp_key :: "world \<Rightarrow> nat \<Rightarrow> real" where
  "rp_key w i = (case regional_pollution (ecosystem w) (name (countries w ! i)) of Some v \<Rightarrow> v | None \<Rightarrow> 0)"

definition disease_effect :: "country \<Rightarrow> country" where
  "disease_effect c =
     (let m = multiplier (infrastructure_level c) in
      c\<lparr>population := py_int (real_of_int (population c) * (1 - 0.05 * m)),
        happiness := max 0 (happiness c - 10 * m),
        rebellion_risk := rebellion_risk c + 0.05 * m\<rparr>)"

definition earthquake_effect :: "country \<Rightarrow> country" where
  "earthquake_effect c =
     (let m = multiplier (infrastructure_level c) in
      c\<lparr>population := max 0 (population c - py_int (5000 * m)),
        production := max 0 (production c * (1 - 0.2 * m)),
        happiness := max 0 (happiness c - 5 * m)\<rparr>)"

definition flood_effect :: "country \<Rightarrow> country" where
  "flood_effect c =
     (let m = multiplier (infrastructure_level c) in
      c\<lparr>resources := (resources c)(Forest := max 0 (resources c Forest - py_int (20 * m))),
        money := py_int (real_of_int (money c) * (1 - 0.1 * m)),
        happiness := max 0 (happiness c - 5 * m)\<rparr>)"

record disaster_draws =
  disease_u :: real
  earthquake_u :: real
  earthquake_k :: nat
  flood_u :: real

definition disease :: "disaster_draws \<Rightarrow> world \<Rightarrow> world outcome" where
  "disease d w =
     (if alarm_level (ecosystem w) \<ge> 1 \<or> disease_u d < 0.1 then
        (case indices w of
           [] \<Rightarrow> Raised ValueError w
         | i # rest \<Rightarrow>
             if \<not> keys_present w then Raised KeyError w
             else Normal (upd_country (max_by_first (rp_key w) i rest) disease_effect w))
      else Normal w)"

definition earthquake :: "disaster_draws \<Rightarrow> world \<Rightarrow> world outcome" where
  "earthquake d w =
     (if alarm_level (ecosystem w) \<ge> 2 \<or> earthquake_u d < 0.05 then
        (if countries w = [] then Raised IndexError w
         else Normal (upd_country (earthquake_k d mod length (countries w)) earthquake_effect w))
      else Normal w)"

definition flood :: "disaster_draws \<Rightarrow> world \<Rightarrow> world outcome" where
  "flood d w =
     (if alarm_level (ecosystem w) \<ge> 3 \<or> flood_u d < 0.02 then
        (if \<not> keys_present w then Raised KeyError w
         else Normal (fold (\<lambda>i. upd_country i flood_effect) (take 2 (sorted_desc (rp_key w) (indices w))) w))
      else Normal w)"

definition trigger_disasters_body :: "disaster_draws \<Rightarrow> world \<Rightarrow> world outcome" where
  "trigger_disasters_body d w = and_then (and_then (disease d w) (earthquake d)) (flood d)"

definition trigger_disasters :: "disaster_draws \<Rightarrow> world \<Rightarrow> world" where
  "trigger_disasters d w = state_of (trigger_disasters_body d w)"

section \<open>Country: diplomacy\<close>

datatype diplomatic_status = Friendly | Hostile | Neutral

text \<open>\<open>tension_score.get(n, 50)\<close>\<close>

definition tension_get :: "country \<Rightarrow> string \<Rightarrow> int" where
  "tension_get c n = (case tension_score c n of None \<Rightarrow> 50 | Some t \<Rightarrow> t)"

definition get_diplomatic_status :: "country \<Rightarrow> country \<Rightarrow> diplomatic_status" where
  "get_diplomatic_status self other =
     (let tension = tension_get self (name other) in
      if tension < 30 then Friendly else if tension > 70 then Hostile else Neutral)"

text \<open>\<open>update_tension i j change\<close>: country \<open>i\<close> updates its tension with country \<open>j\<close>.\<close>

definition update_tension :: "nat \<Rightarrow> nat \<Rightarrow> int \<Rightarrow> world \<Rightarrow> world" where
  "update_tension i j change w =
     (let partner_name = name (countries w ! j) in
      upd_country i
        (\<lambda>c. c\<lparr>tension_score :=
                 (tension_score c)(partner_name \<mapsto> min 100 (max 0 (tension_get c partner_name + change)))\<rparr>)
        w)"

section \<open>World.simulate\_global\_events\<close>

definition pandemic_effect :: "country \<Rightarrow> country" where
  "pandemic_effect c =
     c\<lparr>production := production c * 0.5,
       happiness := max 0 (happiness c - 10),
       pollution := pollution c + 2,
       population := py_int (real_of_int (population c) * 0.98)\<rparr>"

definition meteor_effect :: "(resource \<Rightarrow> nat) \<Rightarrow> country \<Rightarrow> country" where
  "meteor_effect loss c =
     c\<lparr>resources := (\<lambda>key. max 0 (resources c key - randint 5 20 (loss key))),
       happiness := max 0 (happiness c - 5),
       pollution := pollution c + 3,
       tech_level := max 1 (tech_level c - 1)\<rparr>"

definition economic_crash_effect :: "country \<Rightarrow> country" where
  "economic_crash_effect c =
     c\<lparr>money := py_int (real_of_int (money c) * 0.7),
       happiness := max 0 (happiness c - 10),
       pollution := pollution c + 3\<rparr>"

definition blackout_effect :: "country \<Rightarrow> country" where
  "blackout_effect c =
     c\<lparr>tech_level := max 1 (tech_level c - 1),
       production := production c * 0.6,
       pollution := pollution c + 2\<rparr>"

text \<open>
  One round of an event's loop: the country's fields change, then its regional
  pollution entry grows by \<open>x\<close>.
\<close>

definition event_country :: "(nat \<Rightarrow> country \<Rightarrow> country) \<Rightarrow> real \<Rightarrow> nat \<Rightarrow> world \<Rightarrow> world outcome" where
  "event_country effect x i w = rp_add (name (countries w ! i)) x (upd_country i (effect i) w)"

definition event_phase ::
  "global_event \<Rightarrow> (nat \<Rightarrow> country \<Rightarrow> country) \<Rightarrow> real \<Rightarrow> world \<Rightarrow> world outcome" where
  "event_phase ev effect x w =
     (if global_events w ev = Some True then for_each (indices w) (event_country effect x) w
      else Normal w)"

record event_draws =
  pandemic_u :: real
  meteor_u :: real
  economic_crash_u :: real
  blackout_u :: real
  meteor_loss :: "nat \<Rightarrow> resource \<Rightarrow> nat"
  disasters :: disaster_draws

definition draw_global_events :: "event_draws \<Rightarrow> world \<Rightarrow> world" where
  "draw_global_events d w =
     w\<lparr>global_events := (global_events w)
         (Pandemic \<mapsto> pandemic_u d < 0.05,
          Meteor \<mapsto> meteor_u d < 0.1,
          Economic_crash \<mapsto> economic_crash_u d < 0.03,
          Blackout \<mapsto> blackout_u d < 0.04)\<rparr>"

definition simulate_global_events_body :: "event_draws \<Rightarrow> int \<Rightarrow> world \<Rightarrow> world outcome" where
  "simulate_global_events_body d yr w =
     (case global_events_done w yr of
        None \<Rightarrow> Raised KeyError w
      | Some done \<Rightarrow>
          if done then Normal w
          else run
            [lift (\<lambda>w. w\<lparr>global_events_done := (global_events_done w)(yr \<mapsto> True)\<rparr>),
             lift (draw_global_events d),
             event_phase Pandemic (\<lambda>i. pandemic_effect) 2,
             event_phase Meteor (\<lambda>i. meteor_effect (meteor_loss d i)) 3,
             event_phase Economic_crash (\<lambda>i. economic_crash_effect) 3,
             event_phase Blackout (\<lambda>i. blackout_effect) 2,
             lift update_pollution,
             lift sound_alarm,
             lift (trigger_disasters (disasters d))]
            w)"

definition simulate_global_events :: "event_draws \<Rightarrow> int \<Rightarrow> world \<Rightarrow> world" where
  "simulate_global_events d yr w = state_of (simulate_global_events_body d yr w)"

section \<open>World.simulate\_war\<close>

definition war_tension :: "world \<Rightarrow> nat \<Rightarrow> nat \<Rightarrow> int" where
  "war_tension w i j =
     tension_get (countries w ! i) (name (countries w ! j))
       + (if global_pollution (ecosystem w) > 50 then 5 else 0)"

definition potential_wars :: "world \<Rightarrow> (nat \<times> nat) list" where
  "potential_wars w =
     filter (\<lambda>p. fst p \<noteq> snd p \<and> war_tension w (fst p) (snd p) > 70)
       (List.product (indices w) (indices w))"

definition combat_score :: "real \<Rightarrow> country \<Rightarrow> real" where
  "combat_score coefficient c =
     real_of_int (population c) * coefficient * real_of_int (tech_level c)
       * (1 + real_of_int (resources c Oil) / 100 + real_of_int (resources c Gas) / 200)"

definition transfer_resource :: "nat \<Rightarrow> nat \<Rightarrow> resource \<Rightarrow> world \<Rightarrow> world" where
  "transfer_resource winner loser r w =
     (let loss = py_int (real_of_int (resources (countries w ! loser) r) * 0.3) in
      upd_country winner (\<lambda>c. c\<lparr>resources := (resources c)(r := resources c r + loss)\<rparr>)
        (upd_country loser (\<lambda>c. c\<lparr>resources := (resources c)(r := max 0 (resources c r - loss))\<rparr>) w))"

definition loser_effect :: "country \<Rightarrow> country" where
  "loser_effect c =
     c\<lparr>population := population c - py_int (real_of_int (population c) * 0.05),
       happiness := max 0 (happiness c - 10),
       pollution := pollution c + 10 + 2,
       rebellion_risk := rebellion_risk c + 0.05\<rparr>"

definition winner_effect :: "country \<Rightarrow> country" where
  "winner_effect c =
     c\<lparr>population := population c - py_int (real_of_int (population c) * 0.02),
       happiness := min 100 (happiness c + 5),
       pollution := pollution c + 10 + 2,
       rebellion_risk := rebellion_risk c + 0.05\<rparr>"

definition peace_agreement :: "real \<Rightarrow> nat \<Rightarrow> nat \<Rightarrow> world \<Rightarrow> world" where
  "peace_agreement u winner loser w =
     (if u < 0.5 then update_tension loser winner (-20) (update_tension winner loser (-20) w) else w)"

definition war_effects :: "real \<Rightarrow> nat \<Rightarrow> nat \<Rightarrow> world \<Rightarrow> world outcome" where
  "war_effects u winner loser w =
     run
       [lift (fold (transfer_resource winner loser) resource_keys),
        lift (upd_country loser loser_effect),
        lift (upd_country winner winner_effect),
        lift (upd_ecosystem (\<lambda>e. e\<lparr>global_pollution := global_pollution e + 2\<rparr>)),
        (\<lambda>w. rp_add (name (countries w ! winner)) 12 w),
        (\<lambda>w. rp_add (name (countries w ! loser)) 12 w),
        lift (upd_ecosystem (\<lambda>e. e\<lparr>ecosystem_health := max 0 (ecosystem_health e - 15)\<rparr>)),
        lift (update_tension winner loser 10),
        lift (update_tension loser winner 30),
        lift (peace_agreement u winner loser)]
       w"

definition war_state :: "world \<Rightarrow> nat \<Rightarrow> int \<Rightarrow> state_key" where
  "war_state w a tension = get_state (countries w ! a) (ecosystem_health (ecosystem w)) (Some tension)"

definition learn_war :: "nat \<Rightarrow> state_key \<Rightarrow> war_action \<Rightarrow> real \<Rightarrow> state_key \<Rightarrow> world \<Rightarrow> world" where
  "learn_war a state action reward new_state w =
     upd_country a
       (\<lambda>c. c\<lparr>agent := (agent c)\<lparr>war_q := update war_keys (war_q (agent c)) state action reward new_state\<rparr>\<rparr>)
       w"

definition war_reward :: "country \<Rightarrow> real \<Rightarrow> country \<Rightarrow> real \<Rightarrow> bool \<Rightarrow> real" where
  "war_reward old old_eco new new_eco won =
     (let delta_hap = happiness new - happiness old;
          delta_mon = real_of_int (money new - money old) / 10000000;
          delta_pol = pollution new - pollution old;
          delta_eco = new_eco - old_eco;
          delta_reb = rebellion_risk new - rebellion_risk old;
          reward = delta_hap + delta_mon - delta_pol - \<bar>delta_eco\<bar> * 2 - delta_reb * 10
      in if won then reward + 10 else reward - 10)"

record conflict_draws =
  action_u :: real
  action_k :: nat
  settlement_u :: real

text \<open>One round of the loop over the first two candidate pairs.\<close>

definition conflict :: "(nat \<times> nat) \<times> conflict_draws \<Rightarrow> world \<Rightarrow> world outcome" where
  "conflict p w =
     (let a = fst (fst p); df = snd (fst p); d = snd p;
          attacker = countries w ! a; defender = countries w ! df;
          tension = tension_get attacker (name defender);
          state = war_state w a tension;
          choice = choose_action war_keys (action_u d) (action_k d) (war_q (agent attacker)) state;
          action = fst choice;
          w0 = upd_country a (\<lambda>c. c\<lparr>agent := (agent c)\<lparr>war_q := snd choice\<rparr>\<rparr>) w
      in if action = Peace then Normal (learn_war a state action 1 (war_state w0 a tension) w0)
         else
           let attack_score = combat_score 0.15 attacker;
               defense_score = combat_score 0.20 defender
           in if attack_score = defense_score then
                Normal (learn_war a state action (-1)
                  (war_state w0 a (tension_get (countries w0 ! a) (name (countries w0 ! df)))) w0)
              else
                let winner = (if attack_score > defense_score then a else df);
                    loser = (if attack_score > defense_score then df else a)
                in and_then (war_effects (settlement_u d) winner loser w0)
                     (\<lambda>w1. Normal (learn_war a state action
                        (war_reward attacker (ecosystem_health (ecosystem w0))
                           (countries w1 ! a) (ecosystem_health (ecosystem w1)) (winner = a))
                        (war_state w1 a (tension_get (countries w1 ! a) (name (countries w1 ! df))))
                        w1)))"

record war_draws =
  shuffle_picks :: "nat list"
  first_conflict :: conflict_draws
  second_conflict :: conflict_draws

definition simulate_war_body :: "war_draws \<Rightarrow> int \<Rightarrow> world \<Rightarrow> world outcome" where
  "simulate_war_body d yr w =
     (case global_events_done w yr of
        None \<Rightarrow> Raised KeyError w
      | Some done \<Rightarrow>
          if done then Normal w
          else for_each
                 (zip (take 2 (shuffle (shuffle_picks d) (potential_wars w)))
                      [first_conflict d, second_conflict d])
                 conflict w)"

definition simulate_war :: "war_draws \<Rightarrow> int \<Rightarrow> world \<Rightarrow> world" where
  "simulate_war d yr w = state_of (simulate_war_body d yr w)"

section \<open>Country.join\_environment\_agreement\<close>

record choice_draws =
  choice_u :: real
  choice_k :: nat

definition align_with :: "nat \<Rightarrow> nat \<Rightarrow> world \<Rightarrow> world" where
  "align_with i j w =
     (if j \<noteq> i \<and> environment_agreement (countries w ! j) \<noteq> 0 then
        let w1 = update_tension j i (-5) (update_tension i j (-5) w);
            mean = (ideology_score (countries w1 ! i) + ideology_score (countries w1 ! j)) div 2
        in upd_country j (\<lambda>c. c\<lparr>ideology_score := mean\<rparr>)
             (upd_country i (\<lambda>c. c\<lparr>ideology_score := mean\<rparr>) w1)
      else w)"

definition join_effects :: "nat \<Rightarrow> world \<Rightarrow> world outcome" where
  "join_effects i w =
     run
       [lift (upd_country i
          (\<lambda>c. c\<lparr>environment_agreement := 1,
                 pollution := max 0 (pollution c - 10),
                 money := py_int (real_of_int (money c) * 0.95)\<rparr>)),
        lift (upd_ecosystem (\<lambda>e. e\<lparr>ecosystem_health := min 100 (ecosystem_health e + 5)\<rparr>)),
        lift (\<lambda>w. fold (align_with i) (indices w) w)]
       w"

definition refuse_effects :: "nat \<Rightarrow> world \<Rightarrow> world outcome" where
  "refuse_effects i w =
     run
       [lift (upd_country i (\<lambda>c. c\<lparr>pollution := pollution c + 5\<rparr>)),
        (\<lambda>w. rp_add (name (countries w ! i)) 5 w),
        lift (upd_country i
          (\<lambda>c. c\<lparr>happiness := max 0 (happiness c - 2), rebellion_risk := rebellion_risk c + 0.02\<rparr>))]
       w"

definition agreement_reward :: "country \<Rightarrow> real \<Rightarrow> country \<Rightarrow> real \<Rightarrow> real" where
  "agreement_reward old old_eco new new_eco =
     (let delta_hap = happiness new - happiness old;
          delta_mon = real_of_int (money new - money old) / 10000000;
          delta_pol = pollution new - pollution old;
          delta_eco = new_eco - old_eco;
          delta_reb = rebellion_risk new - rebellion_risk old
      in delta_hap + delta_mon - delta_pol / 10 + delta_eco - delta_reb * 10)"

definition own_state :: "world \<Rightarrow> nat \<Rightarrow> state_key" where
  "own_state w i = get_state (countries w ! i) (ecosystem_health (ecosystem w)) None"

definition join_environment_agreement_body :: "choice_draws \<Rightarrow> nat \<Rightarrow> world \<Rightarrow> world outcome" where
  "join_environment_agreement_body d i w =
     (let self = countries w ! i in
      if environment_agreement self = 1 then Normal w
      else
        let state = own_state w i;
            choice = choose_action agree_keys (choice_u d) (choice_k d) (agree_q (agent self)) state;
            action = fst choice;
            w0 = upd_country i (\<lambda>c. c\<lparr>agent := (agent c)\<lparr>agree_q := snd choice\<rparr>\<rparr>) w
        in and_then (if action = Join then join_effects i w0 else refuse_effects i w0)
             (\<lambda>w1. Normal (upd_country i
                (\<lambda>c. c\<lparr>agent := (agent c)\<lparr>agree_q :=
                   update agree_keys (agree_q (agent c)) state action
                     (agreement_reward self (ecosystem_health (ecosystem w))
                        (countries w1 ! i) (ecosystem_health (ecosystem w1)))
                     (own_state w1 i)\<rparr>\<rparr>)
                w1)))"

definition join_environment_agreement :: "choice_draws \<Rightarrow> nat \<Rightarrow> world \<Rightarrow> world" where
  "join_environment_agreement d i w = state_of (join_environment_agreement_body d i w)"

section \<open>Country.trade\_resources\<close>

definition resource_needs :: "country \<Rightarrow> resource \<Rightarrow> int" where
  "resource_needs c r =
     (case r of
        Oil \<Rightarrow> 30 - resources c Oil
      | Coal \<Rightarrow> 20 - resources c Coal
      | Gas \<Rightarrow> 20 - resources c Gas
      | Forest \<Rightarrow> 50 - resources c Forest)"

definition most_needed :: "country \<Rightarrow> resource" where
  "most_needed c = max_by_first (resource_needs c) Oil [Coal, Gas, Forest]"

definition pollution_increase :: "resource \<Rightarrow> real" where
  "pollution_increase r = (case r of Oil \<Rightarrow> 4 | Coal \<Rightarrow> 6 | Gas \<Rightarrow> 2 | Forest \<Rightarrow> 1)"

record trade_draws =
  amount_n :: nat
  accept_u :: real

text \<open>
  The branch a call of \<open>trade_resources\<close> takes. All its tests read the state as it is
  at the call, since nothing is written before the last of them.
\<close>

datatype trade_branch =
  Not_attempted | No_suitable_resource | Lacks_funds | Rejected | Accepted resource int

definition trade_branch :: "trade_draws \<Rightarrow> nat \<Rightarrow> nat \<Rightarrow> world \<Rightarrow> trade_branch" where
  "trade_branch d i j w =
     (let self = countries w ! i; partner = countries w ! j in
      if j = i \<or> ecosystem_health (ecosystem w) < 30 then Not_attempted
      else
        let resource = most_needed self in
        if resource_needs self resource \<le> 0 \<or> resources partner resource < 10 then No_suitable_resource
        else
          let amount = min (randint 5 20 (amount_n d)) (resources partner resource) in
          if money partner < amount * 1000 then Lacks_funds
          else
            let relation = 100 - \<bar>ideology_score self - ideology_score partner\<bar>;
                trade_chance = 0.5 + real_of_int relation / 200
                  + (if get_diplomatic_status self partner = Friendly then 0.1 else 0)
            in if accept_u d > trade_chance then Rejected else Accepted resource amount)"

definition exchange :: "nat \<Rightarrow> nat \<Rightarrow> resource \<Rightarrow> int \<Rightarrow> world \<Rightarrow> world" where
  "exchange i j r amount w =
     upd_country j (\<lambda>c. c\<lparr>money := money c + amount * 1000\<rparr>)
       (upd_country i (\<lambda>c. c\<lparr>money := money c - amount * 1000\<rparr>)
         (upd_country j (\<lambda>c. c\<lparr>resources := (resources c)(r := resources c r - amount)\<rparr>)
           (upd_country i (\<lambda>c. c\<lparr>resources := (resources c)(r := resources c r + amount)\<rparr>) w)))"

definition trade_resources_body :: "trade_draws \<Rightarrow> nat \<Rightarrow> nat \<Rightarrow> world \<Rightarrow> world outcome" where
  "trade_resources_body d i j w =
     (case trade_branch d i j w of
        Not_attempted \<Rightarrow> Normal w
      | No_suitable_resource \<Rightarrow> Normal w
      | Lacks_funds \<Rightarrow> Normal w
      | Rejected \<Rightarrow> Normal (update_tension j i 5 (update_tension i j 5 w))
      | Accepted r amount \<Rightarrow>
          run
            [lift (exchange i j r amount),
             lift (upd_country i (\<lambda>c. c\<lparr>pollution := pollution c + pollution_increase r\<rparr>)),
             (\<lambda>w. rp_add (name (countries w ! i)) (pollution_increase r) w),
             lift (update_tension i j (-5)),
             lift (update_tension j i (-5))]
            w)"

definition trade_resources :: "trade_draws \<Rightarrow> nat \<Rightarrow> nat \<Rightarrow> world \<Rightarrow> world" where
  "trade_resources d i j w = state_of (trade_resources_body d i j w)"

section \<open>Country.collect\_taxes\<close>

definition taxes_effect :: "real \<Rightarrow> country \<Rightarrow> country" where
  "taxes_effect global_pol c =
     (let tax_rate = (if government c = GovRight then 0.05 else 0.10);
          tax_income = py_int (real_of_int (population c) * tax_rate);
          tax_income = (if government c = GovRight \<and> infrastructure_level c > 70
                        then py_int (real_of_int tax_income * 1.10) else tax_income);
          happiness_loss = (if government c = GovRight then 2 else 5);
          happiness_loss = (if global_pol > 50 then happiness_loss + 3 else happiness_loss)
      in c\<lparr>money := money c + tax_income, happiness := max 0 (happiness c - happiness_loss)\<rparr>)"

definition collect_taxes :: "nat \<Rightarrow> world \<Rightarrow> world" where
  "collect_taxes i w = upd_country i (taxes_effect (global_pollution (ecosystem w))) w"

section \<open>Country.make\_investment\_decision\<close>

definition efficiency :: "real \<Rightarrow> real \<Rightarrow> real" where
  "efficiency eco_health hap =
     (let base = (if eco_health < 30 then 0.5 else 1.0) in
      if hap > 70 then base * 1.2 else if hap < 30 then base * 0.8 else base)"

definition invest_economy :: "nat \<Rightarrow> real \<Rightarrow> world \<Rightarrow> world outcome" where
  "invest_economy i eff w =
     (let right = (government (countries w ! i) = GovRight);
          production_increase = (if right then 10 * eff else 12 * eff);
          pollution_inc = (if right then 7 * eff else 5 * eff);
          money_increase = (if right then 0.07 * eff else 0.05 * eff)
      in run
           [lift (upd_country i
              (\<lambda>c. c\<lparr>production := production c + production_increase,
                     pollution := pollution c + pollution_inc\<rparr>)),
            (\<lambda>w. rp_add (name (countries w ! i)) pollution_inc w),
            lift (upd_country i
              (\<lambda>c. c\<lparr>money := py_int (real_of_int (money c) * (1 + money_increase)),
                     resources := (resources c)
                       (Oil := resources c Oil + py_int (5 * eff),
                        Coal := resources c Coal + py_int (5 * eff),
                        Gas := resources c Gas + py_int (3 * eff)),
                     happiness := (if government c = GovLeft then max 0 (happiness c - 2 * eff)
                                   else happiness c)\<rparr>))]
           w)"

definition clean_region :: "string \<Rightarrow> real \<Rightarrow> real \<Rightarrow> real \<Rightarrow> world \<Rightarrow> world outcome" where
  "clean_region n pollution_decrease eco_health_increase eff w =
     (case regional_pollution (ecosystem w) n of
        None \<Rightarrow> Raised KeyError w
      | Some v \<Rightarrow>
          Normal (upd_ecosystem
            (\<lambda>e. e\<lparr>regional_pollution := (regional_pollution e)(n \<mapsto> max 0 (v - pollution_decrease)),
                   ecosystem_health := min 100 (ecosystem_health e + eco_health_increase),
                   global_pollution := max 0 (global_pollution e - 2 * eff)\<rparr>)
            w))"

definition invest_environment :: "nat \<Rightarrow> real \<Rightarrow> world \<Rightarrow> world outcome" where
  "invest_environment i eff w =
     (let right = (government (countries w ! i) = GovRight);
          pollution_decrease = (if right then 10 * eff else 12 * eff);
          eco_health_increase = (if right then 3 * eff else 7 * eff)
      in run
           [lift (upd_country i (\<lambda>c. c\<lparr>pollution := max 0 (pollution c - pollution_decrease)\<rparr>)),
            (\<lambda>w. clean_region (name (countries w ! i)) pollution_decrease eco_health_increase eff w),
            lift (upd_country i
              (\<lambda>c. c\<lparr>happiness := min 100 (happiness c + 5 * eff),
                     money := py_int (real_of_int (money c) * (1 + 0.02 * eff)),
                     resources := (resources c)(Forest := resources c Forest + py_int (5 * eff))\<rparr>))]
           w)"

definition invest_infrastructure :: "nat \<Rightarrow> real \<Rightarrow> world \<Rightarrow> world outcome" where
  "invest_infrastructure i eff w =
     (let right = (government (countries w ! i) = GovRight);
          infra_increase = (if right then 25 * eff else 15 * eff);
          rebellion_decrease = (if right then 0.03 * eff else 0.02 * eff)
      in Normal (upd_country i
           (\<lambda>c. c\<lparr>infrastructure_level := min 100 (infrastructure_level c + infra_increase),
                  happiness := min 100 (happiness c + 4 * eff),
                  rebellion_risk := max 0 (rebellion_risk c - rebellion_decrease)\<rparr>)
           w))"

definition invest_effects :: "invest_action \<Rightarrow> nat \<Rightarrow> real \<Rightarrow> world \<Rightarrow> world outcome" where
  "invest_effects target_area i eff w =
     (case target_area of
        Economy \<Rightarrow> invest_economy i eff w
      | Environment \<Rightarrow> invest_environment i eff w
      | Infrastructure \<Rightarrow> invest_infrastructure i eff w)"

definition investment_reward :: "country \<Rightarrow> real \<Rightarrow> country \<Rightarrow> real \<Rightarrow> real" where
  "investment_reward old old_eco new new_eco =
     (let delta_hap = happiness new - happiness old;
          delta_mon = real_of_int (money new - money old) / 10000000;
          delta_pol = pollution new - pollution old;
          delta_eco = new_eco - old_eco;
          delta_reb = rebellion_risk new - rebellion_risk old
      in delta_hap + delta_mon - delta_pol + delta_eco * 0.5 - delta_reb * 10)"

text \<open>
  The effects of an investment once the action is chosen: the amount is moved into the
  investment bucket, the efficiency is computed and the effects of the target area are
  applied.
\<close>

definition invest :: "invest_action \<Rightarrow> nat \<Rightarrow> world \<Rightarrow> world outcome" where
  "invest target_area i w =
     (let investment_amount = py_int (real_of_int (money (countries w ! i)) * 0.05);
          w1 = upd_country i
                 (\<lambda>c. c\<lparr>money := money c - investment_amount,
                        investments := (investments c)(target_area := investments c target_area + investment_amount)\<rparr>)
                 w;
          eff = efficiency (ecosystem_health (ecosystem w1)) (happiness (countries w1 ! i))
      in invest_effects target_area i eff w1)"

definition make_investment_decision_body :: "choice_draws \<Rightarrow> nat \<Rightarrow> world \<Rightarrow> world outcome" where
  "make_investment_decision_body d i w =
     (let self = countries w ! i in
      if money self < 10000000 then Normal w
      else
        let state = own_state w i;
            choice = choose_action invest_keys (choice_u d) (choice_k d) (invest_q (agent self)) state;
            action = fst choice;
            w0 = upd_country i (\<lambda>c. c\<lparr>agent := (agent c)\<lparr>invest_q := snd choice\<rparr>\<rparr>) w
        in if py_int (real_of_int (money self) * 0.05) < 5000 then Normal w0
           else and_then (invest action i w0)
                  (\<lambda>w1. Normal (upd_country i
                     (\<lambda>c. c\<lparr>agent := (agent c)\<lparr>invest_q :=
                        update invest_keys (invest_q (agent c)) state action
                          (investment_reward self (ecosystem_health (ecosystem w))
                             (countries w1 ! i) (ecosystem_health (ecosystem w1)))
                          (own_state w1 i)\<rparr>\<rparr>)
                     w1)))"

definition make_investment_decision :: "choice_draws \<Rightarrow> nat \<Rightarrow> world \<Rightarrow> world" where
  "make_investment_decision d i w = state_of (make_investment_decision_body d i w)"

section \<open>Country.rebellion\<close>

record rebellion_draws =
  success_u :: real
  failed_happiness_n :: nat

definition flip :: "government \<Rightarrow> government" where
  "flip g = (if g = GovRight then GovLeft else GovRight)"

definition rebellion_effect :: "rebellion_draws \<Rightarrow> country \<Rightarrow> country" where
  "rebellion_effect d c =
     (let c1 = c\<lparr>population := py_int (real_of_int (population c) * 0.9),
                 military_power := py_int (real_of_int (military_power c) * 0.5),
                 money := py_int (real_of_int (money c) * 0.5)\<rparr>
      in if success_u d < 0.25 then
           c1\<lparr>government := flip (government c1),
              ideology_score := - ideology_score c1,
              happiness := 70\<rparr>
         else c1\<lparr>happiness := real_of_int (randint 30 40 (failed_happiness_n d))\<rparr>)"

definition rebellion :: "rebellion_draws \<Rightarrow> nat \<Rightarrow> world \<Rightarrow> world" where
  "rebellion d i w = upd_country i (rebellion_effect d) w"

section \<open>Country.simulate\_turn\<close>

record turn_draws =
  sports_u :: real
  education_u :: real
  tech_u :: real
  tech_v :: real
  partner_k :: nat
  trade :: trade_draws
  agreement :: choice_draws
  investment :: choice_draws
  uprising :: rebellion_draws

definition growth :: "country \<Rightarrow> country" where
  "growth c =
     (let production' = production c + real_of_int (tech_level c * education_level c) * 0.1 in
      c\<lparr>year := year c + 1,
        population := population c + py_int (real_of_int (population c) * 0.01),
        production := production',
        money := money c + py_int (production' * 1000)\<rparr>)"

definition consumed_pollution :: "country \<Rightarrow> real" where
  "consumed_pollution c =
     real_of_int (min 5 (resources c Oil)) * 1.5 + real_of_int (min 3 (resources c Coal)) * 2
       + real_of_int (min 2 (resources c Gas)) * 0.5"

definition consume :: "country \<Rightarrow> country" where
  "consume c =
     c\<lparr>resources := (resources c)
         (Oil := max 0 (resources c Oil - min 5 (resources c Oil)),
          Coal := max 0 (resources c Coal - min 3 (resources c Coal)),
          Gas := max 0 (resources c Gas - min 2 (resources c Gas))),
       pollution := pollution c + consumed_pollution c\<rparr>"

definition consumption :: "nat \<Rightarrow> world \<Rightarrow> world outcome" where
  "consumption i w =
     (let c = countries w ! i in
      if production c > 100 then rp_add (name c) (consumed_pollution c) (upd_country i consume w)
      else Normal w)"

definition out_of_oil :: "country \<Rightarrow> country" where
  "out_of_oil c =
     (if resources c Oil = 0 then
        c\<lparr>production := production c * 0.7,
          happiness := max 0 (happiness c - 10),
          rebellion_risk := rebellion_risk c + 0.1\<rparr>
      else c)"

definition out_of_coal :: "country \<Rightarrow> country" where
  "out_of_coal c =
     (if resources c Coal = 0 then
        c\<lparr>production := production c * 0.8, happiness := max 0 (happiness c - 5)\<rparr>
      else c)"

definition out_of_gas :: "country \<Rightarrow> country" where
  "out_of_gas c =
     (if resources c Gas = 0 then c\<lparr>production := production c * 0.9, money := money c - 5000\<rparr>
      else c)"

definition forest_feedback :: "nat \<Rightarrow> world \<Rightarrow> world" where
  "forest_feedback i w =
     (let c = countries w ! i in
      if resources c Forest > 70 then
        upd_ecosystem (\<lambda>e. e\<lparr>ecosystem_health := min 100 (ecosystem_health e + 1)\<rparr>)
          (upd_country i (\<lambda>c. c\<lparr>happiness := min 100 (happiness c + 3)\<rparr>) w)
      else if resources c Forest < 30 then
        upd_country i
          (\<lambda>c. c\<lparr>happiness := max 0 (happiness c - 3), rebellion_risk := rebellion_risk c + 0.05\<rparr>) w
      else w)"

definition regenerate :: "country \<Rightarrow> country" where
  "regenerate c =
     (let c1 = c\<lparr>resources := (resources c)(Forest := resources c Forest + 2)\<rparr> in
      if government c1 = GovLeft then c1\<lparr>resources := (\<lambda>k. resources c1 k + 3)\<rparr>
      else c1\<lparr>resources := (resources c1)(Oil := resources c1 Oil + 2, Coal := resources c1 Coal + 2)\<rparr>)"

definition industry_pollution :: "nat \<Rightarrow> world \<Rightarrow> world outcome" where
  "industry_pollution i w =
     (let c = countries w ! i in
      if production c > 100 then
        rp_add (name c) 3 (upd_country i (\<lambda>c. c\<lparr>pollution := pollution c + 3\<rparr>) w)
      else Normal w)"

definition ecosystem_feedback :: "real \<Rightarrow> country \<Rightarrow> country" where
  "ecosystem_feedback eco_health c =
     (if eco_health < 30 then
        c\<lparr>happiness := max 0 (happiness c - 5),
          natural_disaster_risk := natural_disaster_risk c + 0.2,
          rebellion_risk := rebellion_risk c + 0.05\<rparr>
      else if eco_health > 70 then
        c\<lparr>happiness := min 100 (happiness c + (if government c = GovRight then 5 else 7)),
          money := py_int (real_of_int (money c) * 1.05)\<rparr>
      else c)"

definition sports_year :: "real \<Rightarrow> country \<Rightarrow> country" where
  "sports_year u c =
     (if year c mod 4 = 0 \<and> u < 0.3 then
        c\<lparr>happiness := min 100 (happiness c + 5),
          rebellion_risk := max 0 (rebellion_risk c - 2),
          production := production c * 1.1\<rparr>
      else c)"

definition education_migration :: "real \<Rightarrow> country \<Rightarrow> country" where
  "education_migration u c =
     (if education_level c < 4 \<and> u < 0.2 then
        c\<lparr>population := population c - py_int (real_of_int (population c) * 0.01),
          happiness := max 0 (happiness c - 2)\<rparr>
      else c)"

definition tech_migration :: "real \<Rightarrow> real \<Rightarrow> country \<Rightarrow> country" where
  "tech_migration u v c =
     (if tech_level c < 5 \<and> u < 0.15 then
        c\<lparr>population := population c - py_int (real_of_int (population c) * uniform 0.03 0.07 v),
          happiness := max 0 (happiness c - 5)\<rparr>
      else c)"

text \<open>
  The trade partner is drawn from the other countries; \<open>random.choice\<close> raises IndexError
  when there is none.
\<close>

definition trade_with_partner :: "turn_draws \<Rightarrow> nat \<Rightarrow> world \<Rightarrow> world outcome" where
  "trade_with_partner d i w =
     (let others = neighbors w i in
      if others = [] then Raised IndexError w
      else Normal (trade_resources (trade d) i (others ! (partner_k d mod length others)) w))"

definition election :: "country \<Rightarrow> country" where
  "election c =
     (if year c mod 4 = 0 then
        (if happiness c > 50 then c
         else c\<lparr>government := flip (government c),
                ideology_score := - ideology_score c,
                happiness := 70\<rparr>)
      else c)"

definition rebellion_check :: "rebellion_draws \<Rightarrow> nat \<Rightarrow> world \<Rightarrow> world" where
  "rebellion_check d i w =
     (let c = countries w ! i in
      if happiness c < 20 \<and> \<not> has_rebelled_this_year c then rebellion d i w else w)"

definition year_end :: "country \<Rightarrow> country" where
  "year_end c =
     (let c1 = (if happiness c < 0 then c\<lparr>happiness := 0\<rparr> else c) in
      c1\<lparr>has_rebelled_this_year := False\<rparr>)"

definition simulate_turn_body :: "turn_draws \<Rightarrow> nat \<Rightarrow> world \<Rightarrow> world outcome" where
  "simulate_turn_body d i w =
     run
       [lift (upd_country i growth),
        consumption i,
        lift (upd_country i out_of_oil),
        lift (upd_country i out_of_coal),
        lift (upd_country i out_of_gas),
        lift (forest_feedback i),
        lift (upd_country i regenerate),
        industry_pollution i,
        lift (\<lambda>w. upd_country i (ecosystem_feedback (ecosystem_health (ecosystem w))) w),
        lift (upd_country i (sports_year (sports_u d))),
        lift (upd_country i (education_migration (education_u d))),
        lift (upd_country i (tech_migration (tech_u d) (tech_v d))),
        lift (collect_taxes i),
        trade_with_partner d i,
        lift (join_environment_agreement (agreement d) i),
        lift (make_investment_decision (investment d) i),
        lift (upd_country i election),
        lift (rebellion_check (uprising d) i),
        lift (upd_country i year_end)]
       w"

definition simulate_turn :: "turn_draws \<Rightarrow> nat \<Rightarrow> world \<Rightarrow> world" where
  "simulate_turn d i w = state_of (simulate_turn_body d i w)"

section \<open>An episode\<close>

text \<open>
  The script builds a fresh world for every episode: one country per name, each with the
  agent kept for that name, an ecosystem over them, and a tension between 40 and 60 for
  every ordered pair of distinct countries.
\<close>

definition names :: "string list" where
  "names = [''Sofialand'', ''Jimenara'', ''Paulovia'', ''Claraton'', ''Justoria'']"

record country_draws =
  population_n :: nat
  natural_disaster_v :: real
  government_k :: nat
  ideology_n :: nat
  money_n :: nat
  military_n :: nat
  tech_n :: nat
  education_n :: nat
  pollution_n :: nat

definition new_country :: "country_draws \<Rightarrow> string \<Rightarrow> rl_agent \<Rightarrow> country" where
  "new_country d n a =
     (let gov = [GovRight, GovLeft] ! (government_k d mod 2) in
      \<lparr>name = n,
       population = randint 10000000 80000000 (population_n d),
       resources = (\<lambda>r. 100),
       natural_disaster_risk = uniform 0 1 (natural_disaster_v d),
       government = gov,
       ideology_score = (if gov = GovRight then randint 20 60 (ideology_n d)
                         else randint (-60) (-20) (ideology_n d)),
       money = randint 100000000 1000000000 (money_n d),
       military_power = randint 50 300 (military_n d),
       happiness = 70,
       tech_level = randint 1 5 (tech_n d),
       education_level = randint 1 5 (education_n d),
       pollution = real_of_int (randint 10 20 (pollution_n d)),
       production = 100,
       investments = (\<lambda>a. 0),
       infrastructure_level = 50,
       rebellion_risk = 0,
       year = 0,
       has_rebelled_this_year = False,
       tension_score = Map.empty,
       environment_agreement = 0,
       agent = a\<rparr>)"

definition new_ecosystem :: "country list \<Rightarrow> ecosystem" where
  "new_ecosystem cs =
     \<lparr>global_pollution = sum_list (map pollution cs) / real (length cs),
      regional_pollution = fold (\<lambda>c m. m(name c \<mapsto> pollution c)) cs Map.empty,
      ecosystem_health = 60,
      alarm_level = 0\<rparr>"

definition new_world :: "country list \<Rightarrow> world" where
  "new_world cs =
     \<lparr>countries = cs,
      global_events = Map.empty,
      global_events_done = (\<lambda>yr. if 1 \<le> yr \<and> yr < 21 then Some False else None),
      ecosystem = new_ecosystem cs\<rparr>"

definition initial_tension :: "(nat \<Rightarrow> nat \<Rightarrow> nat) \<Rightarrow> nat \<times> nat \<Rightarrow> world \<Rightarrow> world" where
  "initial_tension t p w =
     (if fst p \<noteq> snd p then
        upd_country (fst p)
          (\<lambda>c. c\<lparr>tension_score :=
                   (tension_score c)(name (countries w ! snd p) \<mapsto> randint 40 60 (t (fst p) (snd p)))\<rparr>)
          w
      else w)"

definition episode_start ::
  "(string \<Rightarrow> country_draws) \<Rightarrow> (string \<Rightarrow> rl_agent) \<Rightarrow> (nat \<Rightarrow> nat \<Rightarrow> nat) \<Rightarrow> world" where
  "episode_start d agents t =
     (let w = new_world (map (\<lambda>n. new_country (d n) n (agents n)) names) in
      fold (initial_tension t) (List.product (indices w) (indices w)) w)"

text \<open>
  One year of \<open>simulate_world\<close>: global events, wars, then one turn per country. The
  turns run on a thread pool; the model takes them in the order of the list.
\<close>

record year_draws =
  events :: event_draws
  wars :: war_draws
  turns :: "nat \<Rightarrow> turn_draws"

definition simulate_year :: "year_draws \<Rightarrow> int \<Rightarrow> world \<Rightarrow> world" where
  "simulate_year d yr w =
     (let w1 = simulate_global_events (events d) yr w;
          w2 = simulate_war (wars d) yr w1
      in fold (\<lambda>i. simulate_turn (turns d i) i) (indices w2) w2)"

primrec simulate_world :: "(int \<Rightarrow> year_draws) \<Rightarrow> nat \<Rightarrow> world \<Rightarrow> world" where
  "simulate_world d 0 w = w"
| "simulate_world d (Suc years) w =
     simulate_year (d (int (Suc years))) (int (Suc years)) (simulate_world d years w)"

section \<open>Reachable states\<close>

text \<open>
  \<open>operation w w'\<close>: one call of a method of the program, on countries of the world and
  with any random draws, takes \<open>w\<close> to \<open>w'\<close>. A state is reachable when calls of these
  methods lead to it from the start of an episode.
\<close>

inductive operation :: "world \<Rightarrow> world \<Rightarrow> bool" where
  op_global_events: "operation w (simulate_global_events ed yr w)"
| op_war: "operation w (simulate_war wd yr w)"
| op_turn: "i < length (countries w) \<Longrightarrow> operation w (simulate_turn td i w)"
| op_update_pollution: "operation w (update_pollution w)"
| op_sound_alarm: "operation w (sound_alarm w)"
| op_trigger_disasters: "operation w (trigger_disasters dd w)"
| op_update_tension:
    "i < length (countries w) \<Longrightarrow> j < length (countries w) \<Longrightarrow> operation w (update_tension i j change w)"
| op_join: "i < length (countries w) \<Longrightarrow> operation w (join_environment_agreement cd i w)"
| op_trade:
    "i < length (countries w) \<Longrightarrow> j < length (countries w) \<Longrightarrow> operation w (trade_resources trd i j w)"
| op_taxes: "i < length (countries w) \<Longrightarrow> operation w (collect_taxes i w)"
| op_invest: "i < length (countries w) \<Longrightarrow> operation w (make_investment_decision cd i w)"
| op_rebellion: "i < length (countries w) \<Longrightarrow> operation w (rebellion rd i w)"

inductive reachable :: "world \<Rightarrow> bool" where
  start: "reachable (episode_start d agents t)"
| step: "reachable w \<Longrightarrow> operation w w' \<Longrightarrow> reachable w'"

section \<open>Notions of the specification\<close>

text \<open>The other actors of actor \<open>i\<close>: the list without its \<open>i\<close>-th element.\<close>

definition others :: "'a list \<Rightarrow> nat \<Rightarrow> 'a list" where
  "others xs i = take i xs @ drop (Suc i) xs"

text \<open>The bounds the specification states for an actor and for the ecosystem.\<close>

definition actor_in_bounds :: "country \<Rightarrow> bool" where
  "actor_in_bounds c =
     (0 \<le> happiness c \<and> happiness c \<le> 100 \<and> 0 \<le> rebellion_risk c
      \<and> (\<forall>n t. tension_score c n = Some t \<longrightarrow> 0 \<le> t \<and> t \<le> 100))"

definition ecosystem_in_bounds :: "ecosystem \<Rightarrow> bool" where
  "ecosystem_in_bounds e =
     (0 \<le> ecosystem_health e \<and> ecosystem_health e \<le> 100 \<and> alarm_level e \<in> {0, 1, 2, 3})"

text \<open>The bounds hold in a world, and its alarm level is at least \<open>a\<close>.\<close>

definition world_in_bounds :: "int \<Rightarrow> world \<Rightarrow> bool" where
  "world_in_bounds a w =
     (list_all actor_in_bounds (countries w) \<and> ecosystem_in_bounds (ecosystem w)
      \<and> a \<le> alarm_level (ecosystem w))"

text \<open>The names and tension scores of the countries, in the order of the list.\<close>

definition diplomacy :: "world \<Rightarrow> (string \<times> (string \<rightharpoonup> int)) list" where
  "diplomacy w = map (\<lambda>c. (name c, tension_score c)) (countries w)"

section \<open>Example inputs\<close>

definition no_agent :: rl_agent where
  "no_agent = \<lparr>invest_q = Map.empty, agree_q = Map.empty, war_q = Map.empty\<rparr>"

definition example_country :: "string \<Rightarrow> country" where
  "example_country n =
     \<lparr>name = n, population = 10000000, resources = (\<lambda>r. 100), natural_disaster_risk = 0,
      government = GovRight, ideology_score = 20, money = 200000000, military_power = 50,
      happiness = 80, tech_level = 1, education_level = 1, pollution = 20, production = 100,
      investments = (\<lambda>a. 0), infrastructure_level = 50, rebellion_risk = 0, year = 0,
      has_rebelled_this_year = False, tension_score = Map.empty, environment_agreement = 0,
      agent = no_agent\<rparr>"

text \<open>
  Two countries; the first is short of forest, holds a tension of 80 towards the second
  and pollutes more.
\<close>

definition example_world :: world where
  "example_world =
     \<lparr>countries =
        [(example_country ''A'')
           \<lparr>resources := (\<lambda>r. 100)(Forest := 10), pollution := 60,
            tension_score := [''B'' \<mapsto> 80]\<rparr>,
         example_country ''B''],
      global_events = Map.empty,
      global_events_done = (\<lambda>yr. if 1 \<le> yr \<and> yr < 21 then Some False else None),
      ecosystem =
        \<lparr>global_pollution = 40, regional_pollution = [''A'' \<mapsto> 62, ''B'' \<mapsto> 26],
         ecosystem_health = 80, alarm_level = 0\<rparr>\<rparr>"

definition quiet_disasters :: disaster_draws where
  "quiet_disasters = \<lparr>disease_u = 1, earthquake_u = 1, earthquake_k = 0, flood_u = 1\<rparr>"

definition quiet_events :: event_draws where
  "quiet_events =
     \<lparr>pandemic_u = 1, meteor_u = 1, economic_crash_u = 1, blackout_u = 1,
      meteor_loss = (\<lambda>i r. 0), disasters = quiet_disasters\<rparr>"

definition attack_draws :: conflict_draws where
  "attack_draws = \<lparr>action_u = 0, action_k = 0, settlement_u = 1\<rparr>"

definition example_war :: war_draws where
  "example_war = \<lparr>shuffle_picks = [], first_conflict = attack_draws, second_conflict = attack_draws\<rparr>"

definition example_trade :: trade_draws where
  "example_trade = \<lparr>amount_n = 0, accept_u = 0\<rparr>"

definition choose_environment :: choice_draws where
  "choose_environment = \<lparr>choice_u = 0, choice_k = 1\<rparr>"

definition example_world_left :: world where
  "example_world_left = upd_country 0 (\<lambda>c. c\<lparr>government := GovLeft\<rparr>) example_world"

definition quiet_turn :: turn_draws where
  "quiet_turn =
     \<lparr>sports_u = 1, education_u = 1, tech_u = 1, tech_v = 0, partner_k = 0,
      trade = example_trade, agreement = choose_environment, investment = choose_environment,
      uprising = \<lparr>success_u = 1, failed_happiness_n = 0\<rparr>\<rparr>"

definition example_year :: year_draws where
  "example_year = \<lparr>events = quiet_events, wars = example_war, turns = (\<lambda>i. quiet_turn)\<rparr>"

definition zero_draws :: country_draws where
  "zero_draws =
     \<lparr>population_n = 0, natural_disaster_v = 0, government_k = 0, ideology_n = 0, money_n = 0,
      military_n = 0, tech_n = 0, education_n = 0, pollution_n = 0\<rparr>"

section \<open>Basic facts\<close>

lemma upc_fields [simp]:
  "length (countries (upd_country i f w)) = length (countries w)"
  "ecosystem (upd_country i f w) = ecosystem w"
  "global_events_done (upd_country i f w) = global_events_done w"
  "global_events (upd_country i f w) = global_events w"
  by (simp_all add: upd_country_def)

lemma upe_fields [simp]:
  "countries (upd_ecosystem g w) = countries w"
  "ecosystem (upd_ecosystem g w) = g (ecosystem w)"
  "global_events_done (upd_ecosystem g w) = global_events_done w"
  "global_events (upd_ecosystem g w) = global_events w"
  by (simp_all add: upd_ecosystem_def)


lemma indices_upc [simp]: "indices (upd_country i f w) = indices w"
  by (simp add: indices_def)

lemma indices_upe [simp]: "indices (upd_ecosystem g w) = indices w"
  by (simp add: indices_def)

lemma penalty_keeps [simp]:
  "pollution (pollution_penalty c) = pollution c" "name (pollution_penalty c) = name c"
  by (simp_all add: pollution_penalty_def)

lemma map_upc:
  assumes "\<And>c. g (f c) = g c"
  shows "map g (countries (upd_country i f w)) = map g (countries w)"
proof (cases "i < length (countries w)")
  case True
  then show ?thesis using assms by (simp add: upd_country_def map_update list_update_same_conv)
next
  case False
  then show ?thesis by (simp add: upd_country_def not_less list_update_beyond)
qed


text \<open>The loop of \<open>update_pollution\<close> keeps every country's pollution and name.\<close>

lemma step_keeps:
  "map pollution (countries (snd (update_pollution_country i st))) = map pollution (countries (snd st))"
  "map name (countries (snd (update_pollution_country i st))) = map name (countries (snd st))"
  "ecosystem (snd (update_pollution_country i st)) = ecosystem (snd st)"
  "global_events_done (snd (update_pollution_country i st)) = global_events_done (snd st)"
  "global_events (snd (update_pollution_country i st)) = global_events (snd st)"
  by (simp_all add: update_pollution_country_def Let_def map_upc)

lemma loop_keeps:
  "map pollution (countries (snd (fold update_pollution_country js st))) = map pollution (countries (snd st))
   \<and> map name (countries (snd (fold update_pollution_country js st))) = map name (countries (snd st))
   \<and> ecosystem (snd (fold update_pollution_country js st)) = ecosystem (snd st)
   \<and> global_events_done (snd (fold update_pollution_country js st)) = global_events_done (snd st)
   \<and> global_events (snd (fold update_pollution_country js st)) = global_events (snd st)"
  by (induction js arbitrary: st) (simp_all add: step_keeps)








lemma example_countries:
  "countries example_world = [(example_country ''A'')
           \<lparr>resources := (\<lambda>r. 100)(Forest := 10), pollution := 60,
            tension_score := [''B'' \<mapsto> 80]\<rparr>,
         example_country ''B'']"
  by (simp add: example_world_def)

lemma run_Nil [simp]: "run [] s = Normal s"
  by (simp add: run_def)

lemma run_Cons: "run (f # fs) s = and_then (f s) (run fs)"
  by (simp add: run_def and_then_def fun_eq_iff split: outcome.splits)

lemma and_then_simps [simp]:
  "and_then (Normal s) f = f s" "and_then (Raised e s) f = Raised e s"
  by (simp_all add: and_then_def)

lemma lift_simp [simp]: "lift f s = Normal (f s)"
  by (simp add: lift_def)

lemma upc_nth_if:
  "countries (upd_country k f w) ! m =
     (if m = k \<and> k < length (countries w) then f (countries w ! k) else countries w ! m)"
proof (cases "k < length (countries w)")
  case True
  then show ?thesis by (simp add: upd_country_def nth_list_update)
next
  case False
  then show ?thesis by (simp add: upd_country_def list_update_beyond not_less)
qed

lemma update_tension_fields [simp]:
  "length (countries (update_tension i j x w)) = length (countries w)"
  "ecosystem (update_tension i j x w) = ecosystem w"
  "global_events_done (update_tension i j x w) = global_events_done w"
  by (simp_all add: update_tension_def Let_def)

lemma update_tension_resources [simp]:
  "resources (countries (update_tension i j x w) ! m) = resources (countries w ! m)"
  "pollution (countries (update_tension i j x w) ! m) = pollution (countries w ! m)"
  "name (countries (update_tension i j x w) ! m) = name (countries w ! m)"
  by (simp_all add: update_tension_def Let_def upc_nth_if)

section \<open>Disaster severity\<close>


section \<open>The alarm\<close>

lemma enumerate_thresholds: "enumerate_from 1 thresholds = [(1, 30), (2, 50), (3, 70)]"
  by (simp add: enumerate_from_def thresholds_def upt_rec)

text \<open>
  C6. One call of \<open>sound_alarm\<close> checks the thresholds 30, 50 and 70 in this order and
  sets the alarm level to the ordinal of the first one that global pollution exceeds
  and whose ordinal is above the current level; nothing else changes, so there is at
  most one escalation, and the level is never lowered.
\<close>

theorem sound_alarm_first_escalation:
  "sound_alarm w = w\<lparr>ecosystem := (ecosystem w)\<lparr>alarm_level :=
       (if global_pollution (ecosystem w) > 30 \<and> alarm_level (ecosystem w) < 1 then 1
        else if global_pollution (ecosystem w) > 50 \<and> alarm_level (ecosystem w) < 2 then 2
        else if global_pollution (ecosystem w) > 70 \<and> alarm_level (ecosystem w) < 3 then 3
        else alarm_level (ecosystem w))\<rparr>\<rparr>
   \<and> alarm_level (ecosystem w) \<le> alarm_level (ecosystem (sound_alarm w))"
  by (simp add: sound_alarm_def upd_ecosystem_def enumerate_thresholds)

section \<open>The Q-update\<close>



section \<open>Pollution update\<close>



section \<open>Trade\<close>

text \<open>
  C10. A call of \<open>trade_resources\<close> whose partner is the actor itself, or that is made
  while ecosystem health is below 30, takes the branch before any write and leaves the
  whole world as it was: both actors, their resources, money, pollution and tension,
  and the ecosystem.
\<close>

theorem trade_disabled:
  "j = i \<or> ecosystem_health (ecosystem w) < 30 \<Longrightarrow>
   trade_branch d i j w = Not_attempted \<and> trade_resources d i j w = w"
  by (simp add: trade_resources_def trade_resources_body_def trade_branch_def Let_def)

theorem trade_disabled_witness:
  "trade_resources example_trade 0 0 example_world = example_world
   \<and> trade_resources example_trade 0 1 (upd_ecosystem (\<lambda>e. e\<lparr>ecosystem_health := 29\<rparr>) example_world)
       = upd_ecosystem (\<lambda>e. e\<lparr>ecosystem_health := 29\<rparr>) example_world"
  using trade_disabled[of 0 0 example_world example_trade]
    trade_disabled[of 1 0 "upd_ecosystem (\<lambda>e. e\<lparr>ecosystem_health := 29\<rparr>) example_world" example_trade]
  by simp

lemma accepted_distinct: "trade_branch d i j w = Accepted r amount \<Longrightarrow> j \<noteq> i"
  by (auto simp: trade_branch_def Let_def split: if_splits)

text \<open>
  C7. When a call of \<open>trade_resources\<close> between two actors of the world takes the
  accepted branch for resource \<open>r\<close> and amount \<open>amount\<close>, the two holdings of \<open>r\<close>
  add up to the same total after the call as before it: the actor holds \<open>amount\<close> more
  and the partner \<open>amount\<close> less.
\<close>

theorem trade_conserves:
  assumes "trade_branch d i j w = Accepted r amount"
    and "i < length (countries w)" and "j < length (countries w)"
  shows "resources (countries (trade_resources d i j w) ! i) r
           + resources (countries (trade_resources d i j w) ! j) r
         = resources (countries w ! i) r + resources (countries w ! j) r
       \<and> resources (countries (trade_resources d i j w) ! i) r = resources (countries w ! i) r + amount
       \<and> resources (countries (trade_resources d i j w) ! j) r = resources (countries w ! j) r - amount"
proof -
  have ne: "j \<noteq> i" using assms(1) by (rule accepted_distinct)
  show ?thesis
    using assms ne
    by (simp add: trade_resources_def trade_resources_body_def run_Cons rp_add_def exchange_def
        upc_nth_if split: option.splits)
qed

lemma example_branch: "trade_branch example_trade 0 1 example_world = Accepted Forest 5"
  by (simp add: trade_branch_def example_trade_def example_world_def example_country_def Let_def
      most_needed_def max_by_first_def resource_needs_def randint_def get_diplomatic_status_def
      tension_get_def)

theorem trade_conserves_witness:
  "trade_branch example_trade 0 1 example_world = Accepted Forest 5
   \<and> resources (countries (trade_resources example_trade 0 1 example_world) ! 0) Forest
       + resources (countries (trade_resources example_trade 0 1 example_world) ! 1) Forest = 110
   \<and> resources (countries (trade_resources example_trade 0 1 example_world) ! 0) Forest = 15"
  using trade_conserves[OF example_branch] example_branch
  by (simp add: example_countries example_country_def)


section \<open>The environment investment scenario\<close>

lemma py_int_numeral [simp]: "py_int (numeral n) = numeral n"
  by (simp add: py_int_def)

lemma state_of_and_then_pollution:
  assumes "\<And>s. pollution (countries (g s) ! i) = pollution (countries s ! i)"
  shows "pollution (countries (state_of (and_then m (\<lambda>s. Normal (g s)))) ! i)
       = pollution (countries (state_of m) ! i)"
  using assms by (cases m) simp_all

lemma invest_environment_pollution:
  assumes "i < length (countries w)"
  shows "pollution (countries (state_of (invest_environment i eff w)) ! i)
       = max 0 (pollution (countries w ! i)
                - (if government (countries w ! i) = GovRight then 10 * eff else 12 * eff))"
  using assms
  by (simp add: invest_environment_def Let_def run_Cons clean_region_def upc_nth_if
      split: option.splits)

text \<open>
  C9. For an actor with money 200,000,000 and happiness 80, in a world with ecosystem
  health 80, whose investment decision selects the environment: the efficiency is 1.2,
  and the call lowers the actor's pollution by 12 under a right government and by 14.4
  under a left one, not below 0.
\<close>

theorem environment_investment_scenario:
  assumes "i < length (countries w)"
    and "money (countries w ! i) = 200000000"
    and "ecosystem_health (ecosystem w) = 80"
    and "happiness (countries w ! i) = 80"
    and "fst (choose_action invest_keys (choice_u d) (choice_k d)
               (invest_q (agent (countries w ! i))) (own_state w i)) = Environment"
  shows "efficiency (ecosystem_health (ecosystem w)) (happiness (countries w ! i)) = 1.2
       \<and> pollution (countries (make_investment_decision d i w) ! i)
           = max 0 (pollution (countries w ! i)
                    - (if government (countries w ! i) = GovRight then 12 else 14.4))"
proof -
  let ?choice = "choose_action invest_keys (choice_u d) (choice_k d)
                   (invest_q (agent (countries w ! i))) (own_state w i)"
  let ?w0 = "upd_country i (\<lambda>c. c\<lparr>agent := (agent c)\<lparr>invest_q := snd ?choice\<rparr>\<rparr>) w"
  let ?w1 = "upd_country i
                 (\<lambda>c. c\<lparr>money := money c - 10000000,
                        investments := (investments c)(Environment := investments c Environment + 10000000)\<rparr>)
                 ?w0"
  have eff: "efficiency (ecosystem_health (ecosystem w)) (happiness (countries w ! i)) = 1.2"
    using assms(3,4) by (simp add: efficiency_def)
  have inv: "invest Environment i ?w0 = invest_environment i 1.2 ?w1"
    using assms(1-4) by (simp add: invest_def Let_def upc_nth_if invest_effects_def efficiency_def)
  have body: "make_investment_decision_body d i w =
      and_then (invest_environment i 1.2 ?w1)
        (\<lambda>w1. Normal (upd_country i
                     (\<lambda>c. c\<lparr>agent := (agent c)\<lparr>invest_q :=
                        update invest_keys (invest_q (agent c)) (own_state w i) Environment
                          (investment_reward (countries w ! i) (ecosystem_health (ecosystem w))
                             (countries w1 ! i) (ecosystem_health (ecosystem w1)))
                          (own_state w1 i)\<rparr>\<rparr>)
                     w1))"
    using assms(2,5) inv by (simp add: make_investment_decision_body_def Let_def)
  have "pollution (countries (make_investment_decision d i w) ! i)
      = pollution (countries (state_of (invest_environment i 1.2 ?w1)) ! i)"
    unfolding make_investment_decision_def body
    by (rule state_of_and_then_pollution) (simp add: upc_nth_if)
  also have "\<dots> = max 0 (pollution (countries ?w1 ! i)
                - (if government (countries ?w1 ! i) = GovRight then 10 * 1.2 else 12 * 1.2))"
    by (rule invest_environment_pollution) (simp add: assms(1))
  also have "\<dots> = max 0 (pollution (countries w ! i)
                    - (if government (countries w ! i) = GovRight then 12 else 14.4))"
    using assms(1) by (simp add: upc_nth_if)
  finally show ?thesis using eff by simp
qed

theorem environment_investment_scenario_witness:
  "money (countries example_world ! 0) = 200000000
   \<and> ecosystem_health (ecosystem example_world) = 80
   \<and> happiness (countries example_world ! 0) = 80
   \<and> government (countries example_world ! 0) = GovRight
   \<and> pollution (countries example_world ! 0) = 60
   \<and> pollution (countries (make_investment_decision choose_environment 0 example_world) ! 0) = 48
   \<and> government (countries example_world_left ! 0) = GovLeft
   \<and> pollution (countries (make_investment_decision choose_environment 0 example_world_left) ! 0)
       = 45.6"
proof -
  have c: "fst (choose_action invest_keys (choice_u choose_environment) (choice_k choose_environment)
               (invest_q (agent (countries w ! 0))) (own_state w 0)) = Environment" for w
    by (simp add: choose_action_def choose_environment_def epsilon_def invest_keys_def keys_list_def Let_def)
  have l: "0 < length (countries example_world)"
    by (simp add: example_countries)
  have m: "money (countries example_world ! 0) = 200000000"
    and h: "happiness (countries example_world ! 0) = 80"
    and g: "government (countries example_world ! 0) = GovRight"
    and p: "pollution (countries example_world ! 0) = 60"
    by (simp_all add: example_countries example_country_def)
  have e: "ecosystem_health (ecosystem example_world) = 80"
    by (simp add: example_world_def)
  have l': "0 < length (countries example_world_left)"
    by (simp add: example_world_left_def example_countries)
  have m': "money (countries example_world_left ! 0) = 200000000"
    and h': "happiness (countries example_world_left ! 0) = 80"
    and g': "government (countries example_world_left ! 0) = GovLeft"
    and p': "pollution (countries example_world_left ! 0) = 60"
    by (simp_all add: example_world_left_def upc_nth_if example_countries example_country_def)
  have e': "ecosystem_health (ecosystem example_world_left) = 80"
    by (simp add: example_world_left_def example_world_def)
  show ?thesis
    using environment_investment_scenario[OF l m e h c]
      environment_investment_scenario[OF l' m' e' h' c] m e h g p g' p'
    by simp
qed

section \<open>The bounds are invariant\<close>

lemma for_each_pres:
  assumes "\<And>i s. i \<in> set xs \<Longrightarrow> P s \<Longrightarrow> P (state_of (body i s))" and "P s"
  shows "P (state_of (for_each xs body s))"
  using assms
proof (induction xs arbitrary: s)
  case Nil
  then show ?case by simp
next
  case (Cons i rest)
  have step: "P (state_of (body i s))" using Cons.prems by simp
  show ?case
  proof (cases "body i s")
    case (Normal s')
    then have "P s'" using step by simp
    then have "P (state_of (for_each rest body s'))"
      using Cons.IH Cons.prems(1) by simp
    then show ?thesis using Normal by simp
  next
    case (Raised e s')
    then show ?thesis using step by simp
  qed
qed

lemma run_pres:
  assumes "\<And>f s. f \<in> set fs \<Longrightarrow> P s \<Longrightarrow> P (state_of (f s))" and "P s"
  shows "P (state_of (run fs s))"
  unfolding run_def using assms by (rule for_each_pres)

lemma and_then_pres:
  assumes "P (state_of m)" and "\<And>s. P s \<Longrightarrow> P (state_of (f s))"
  shows "P (state_of (and_then m f))"
  using assms by (cases m) simp_all

lemma fold_pres:
  assumes "\<And>i s. i \<in> set xs \<Longrightarrow> P s \<Longrightarrow> P (f i s)" and "P s"
  shows "P (fold f xs s)"
  using assms by (induction xs arbitrary: s) simp_all

lemma bounds_upc:
  assumes "world_in_bounds a w" and "\<And>c. actor_in_bounds c \<Longrightarrow> actor_in_bounds (f c)"
  shows "world_in_bounds a (upd_country i f w)"
proof (cases "i < length (countries w)")
  case True
  have "\<And>c. c \<in> set ((countries w)[i := f (countries w ! i)]) \<Longrightarrow> actor_in_bounds c"
  proof -
    fix c assume "c \<in> set ((countries w)[i := f (countries w ! i)])"
    then have "c = f (countries w ! i) \<or> c \<in> set (countries w)"
      using set_update_subset_insert by fastforce
    moreover have "actor_in_bounds (countries w ! i)"
      using assms(1) True by (simp add: world_in_bounds_def list_all_length)
    ultimately show "actor_in_bounds c"
      using assms by (auto simp: world_in_bounds_def list_all_iff)
  qed
  then show ?thesis
    using assms(1) by (simp add: world_in_bounds_def upd_country_def list_all_iff)
next
  case False
  then show ?thesis
    using assms(1) by (simp add: world_in_bounds_def upd_country_def list_update_beyond not_less)
qed

lemma bounds_upe:
  assumes "world_in_bounds a w"
    and "\<And>e. ecosystem_in_bounds e \<Longrightarrow> a \<le> alarm_level e \<Longrightarrow>
           ecosystem_in_bounds (g e) \<and> a \<le> alarm_level (g e)"
  shows "world_in_bounds a (upd_ecosystem g w)"
  using assms by (simp add: world_in_bounds_def)

lemma bounds_rp_add:
  "world_in_bounds a w \<Longrightarrow> world_in_bounds a (state_of (rp_add n x w))"
  by (auto simp: rp_add_def ecosystem_in_bounds_def intro!: bounds_upe split: option.splits)

lemma multiplier_pos: "0 < multiplier x"
  by (simp add: multiplier_def)

lemma efficiency_pos: "0 < efficiency h p"
  by (simp add: efficiency_def Let_def)

lemma randint_range: "lo \<le> hi \<Longrightarrow> lo \<le> randint lo hi n \<and> randint lo hi n \<le> hi"
proof -
  assume "lo \<le> hi"
  then have "0 < nat (hi - lo + 1)" by simp
  then have "n mod nat (hi - lo + 1) < nat (hi - lo + 1)" by (rule mod_less_divisor)
  then show ?thesis unfolding randint_def using \<open>lo \<le> hi\<close> by linarith
qed

lemma effects_in_bounds:
  assumes "actor_in_bounds c"
  shows "actor_in_bounds (pollution_penalty c)"
    and "actor_in_bounds (disease_effect c)"
    and "actor_in_bounds (earthquake_effect c)"
    and "actor_in_bounds (flood_effect c)"
    and "actor_in_bounds (pandemic_effect c)"
    and "actor_in_bounds (meteor_effect l c)"
    and "actor_in_bounds (economic_crash_effect c)"
    and "actor_in_bounds (blackout_effect c)"
    and "actor_in_bounds (loser_effect c)"
    and "actor_in_bounds (winner_effect c)"
    and "actor_in_bounds (taxes_effect g c)"
  using assms multiplier_pos[of "infrastructure_level c"]
  by (auto simp: actor_in_bounds_def pollution_penalty_def disease_effect_def earthquake_effect_def
      flood_effect_def pandemic_effect_def meteor_effect_def economic_crash_effect_def
      blackout_effect_def loser_effect_def winner_effect_def taxes_effect_def Let_def)

lemma turn_effects_in_bounds:
  assumes "actor_in_bounds c"
  shows "actor_in_bounds (growth c)"
    and "actor_in_bounds (consume c)"
    and "actor_in_bounds (out_of_oil c)"
    and "actor_in_bounds (out_of_coal c)"
    and "actor_in_bounds (out_of_gas c)"
    and "actor_in_bounds (regenerate c)"
    and "actor_in_bounds (ecosystem_feedback h c)"
    and "actor_in_bounds (sports_year u c)"
    and "actor_in_bounds (education_migration u c)"
    and "actor_in_bounds (tech_migration u v c)"
    and "actor_in_bounds (election c)"
    and "actor_in_bounds (year_end c)"
  using assms
  by (auto simp: actor_in_bounds_def growth_def consume_def out_of_oil_def out_of_coal_def
      out_of_gas_def regenerate_def ecosystem_feedback_def sports_year_def education_migration_def
      tech_migration_def election_def year_end_def Let_def)

lemma rebellion_effect_in_bounds:
  assumes "actor_in_bounds c"
  shows "actor_in_bounds (rebellion_effect d c)"
  using assms randint_range[of 30 40 "failed_happiness_n d"]
  by (auto simp: actor_in_bounds_def rebellion_effect_def Let_def)

lemma bounds_update_tension:
  assumes "world_in_bounds a w"
  shows "world_in_bounds a (update_tension i j x w)"
  unfolding update_tension_def Let_def
  using assms by (rule bounds_upc) (auto simp: actor_in_bounds_def)

lemmas bounds_for_each = for_each_pres[where P = "world_in_bounds a" for a]
lemmas bounds_and_then = and_then_pres[where P = "world_in_bounds a" for a]
lemmas bounds_fold = fold_pres[where P = "world_in_bounds a" for a]

lemma bounds_run:
  assumes "list_all (\<lambda>f. \<forall>s. world_in_bounds a s \<longrightarrow> world_in_bounds a (state_of (f s))) fs"
    and "world_in_bounds a s"
  shows "world_in_bounds a (state_of (run fs s))"
  using assms by (intro run_pres[where P = "world_in_bounds a"]) (auto simp: list_all_iff)

lemma bounds_update_pollution_country:
  "world_in_bounds a (snd st) \<Longrightarrow> world_in_bounds a (snd (update_pollution_country i st))"
  by (auto simp: update_pollution_country_def Let_def intro!: bounds_upc effects_in_bounds)

lemma bounds_update_pollution:
  assumes "world_in_bounds a w"
  shows "world_in_bounds a (update_pollution w)"
proof (cases "countries w = []")
  case True
  then show ?thesis using assms by (simp add: update_pollution_def update_pollution_body_def)
next
  case False
  let ?w1 = "upd_ecosystem (\<lambda>e. e\<lparr>global_pollution := sum_list (map pollution (countries w)) / real (length (countries w))\<rparr>) w"
  have w1: "world_in_bounds a ?w1"
    using assms by (rule bounds_upe) (simp add: ecosystem_in_bounds_def)
  have "world_in_bounds a (snd (fold update_pollution_country (indices w) (Map.empty, ?w1)))"
    by (rule fold_pres[where P = "\<lambda>st. world_in_bounds a (snd st)"])
      (simp_all add: bounds_update_pollution_country w1)
  then have "world_in_bounds a
      (upd_ecosystem
             (\<lambda>e. e\<lparr>regional_pollution := fst (fold update_pollution_country (indices w) (Map.empty, ?w1)),
                    ecosystem_health :=
                      max 0 (min 100 (ecosystem_health e - real_of_int (py_int (global_pollution e / 5))))\<rparr>)
             (snd (fold update_pollution_country (indices w) (Map.empty, ?w1))))"
    by (rule bounds_upe) (simp add: ecosystem_in_bounds_def)
  then show ?thesis
    using False by (simp add: update_pollution_def update_pollution_body_def Let_def)
qed

lemma bounds_sound_alarm:
  assumes "world_in_bounds a w"
  shows "world_in_bounds a (sound_alarm w)"
  unfolding sound_alarm_def enumerate_thresholds
  using assms by (rule bounds_upe) (auto simp: ecosystem_in_bounds_def)

lemma bounds_disease:
  "world_in_bounds a w \<Longrightarrow> world_in_bounds a (state_of (disease d w))"
  by (auto simp: disease_def intro!: bounds_upc effects_in_bounds split: list.splits)

lemma bounds_earthquake:
  "world_in_bounds a w \<Longrightarrow> world_in_bounds a (state_of (earthquake d w))"
  by (auto simp: earthquake_def intro!: bounds_upc effects_in_bounds)

lemma bounds_flood:
  "world_in_bounds a w \<Longrightarrow> world_in_bounds a (state_of (flood d w))"
  by (auto simp: flood_def intro!: bounds_fold bounds_upc effects_in_bounds)

lemma bounds_trigger_disasters:
  "world_in_bounds a w \<Longrightarrow> world_in_bounds a (trigger_disasters d w)"
  unfolding trigger_disasters_def trigger_disasters_body_def
  by (intro bounds_and_then bounds_disease bounds_earthquake bounds_flood)

lemma bounds_event_phase:
  assumes "\<And>i c. actor_in_bounds c \<Longrightarrow> actor_in_bounds (effect i c)"
    and "world_in_bounds a w"
  shows "world_in_bounds a (state_of (event_phase ev effect x w))"
  using assms
  by (auto simp: event_phase_def event_country_def intro!: bounds_for_each bounds_rp_add bounds_upc)

lemma bounds_flags:
  "world_in_bounds a (w\<lparr>global_events_done := x\<rparr>) = world_in_bounds a w"
  "world_in_bounds a (w\<lparr>global_events := y\<rparr>) = world_in_bounds a w"
  by (simp_all add: world_in_bounds_def)

lemma bounds_global_events:
  assumes "world_in_bounds a w"
  shows "world_in_bounds a (simulate_global_events d yr w)"
proof (cases "global_events_done w yr")
  case None
  then show ?thesis
    using assms by (simp add: simulate_global_events_def simulate_global_events_body_def)
next
  case (Some flag)
  show ?thesis
  proof (cases flag)
    case True
    then show ?thesis
      using assms Some by (simp add: simulate_global_events_def simulate_global_events_body_def)
  next
    case False
    have "world_in_bounds a (state_of (run
            [lift (\<lambda>w. w\<lparr>global_events_done := (global_events_done w)(yr \<mapsto> True)\<rparr>),
             lift (draw_global_events d),
             event_phase Pandemic (\<lambda>i. pandemic_effect) 2,
             event_phase Meteor (\<lambda>i. meteor_effect (meteor_loss d i)) 3,
             event_phase Economic_crash (\<lambda>i. economic_crash_effect) 3,
             event_phase Blackout (\<lambda>i. blackout_effect) 2,
             lift update_pollution,
             lift sound_alarm,
             lift (trigger_disasters (disasters d))]
            w))"
      using assms
      by (intro bounds_run)
        (simp_all add: bounds_flags draw_global_events_def bounds_event_phase effects_in_bounds
          bounds_update_pollution bounds_sound_alarm bounds_trigger_disasters)
    then show ?thesis
      using Some False by (simp add: simulate_global_events_def simulate_global_events_body_def)
  qed
qed

lemma agent_update_in_bounds:
  "actor_in_bounds c \<Longrightarrow> actor_in_bounds (c\<lparr>agent := x\<rparr>)"
  by (simp add: actor_in_bounds_def)

lemma bounds_learn_war:
  "world_in_bounds a w \<Longrightarrow> world_in_bounds a (learn_war i s act r s' w)"
  unfolding learn_war_def by (rule bounds_upc) (simp_all add: agent_update_in_bounds)

lemma bounds_transfer_resource:
  "world_in_bounds a w \<Longrightarrow> world_in_bounds a (transfer_resource i j r w)"
  unfolding transfer_resource_def Let_def
  by (intro bounds_upc) (simp_all add: actor_in_bounds_def)

lemma bounds_peace_agreement:
  "world_in_bounds a w \<Longrightarrow> world_in_bounds a (peace_agreement u i j w)"
  by (simp add: peace_agreement_def bounds_update_tension)

lemma bounds_war_effects:
  assumes "world_in_bounds a w"
  shows "world_in_bounds a (state_of (war_effects u i j w))"
  unfolding war_effects_def
  using assms
  by (intro bounds_run)
    (auto simp: ecosystem_in_bounds_def
      intro!: bounds_fold bounds_transfer_resource bounds_upc effects_in_bounds bounds_upe
        bounds_rp_add bounds_update_tension bounds_peace_agreement)

lemma bounds_conflict:
  assumes "world_in_bounds a w"
  shows "world_in_bounds a (state_of (conflict p w))"
proof -
  have touch: "\<And>q. world_in_bounds a
      (upd_country (fst (fst p)) (\<lambda>c. c\<lparr>agent := (agent c)\<lparr>war_q := q\<rparr>\<rparr>) w)"
    using assms by (rule bounds_upc) (simp add: agent_update_in_bounds)
  show ?thesis
    unfolding conflict_def Let_def
    by (auto intro!: bounds_learn_war bounds_and_then bounds_war_effects touch)
qed

lemma bounds_simulate_war:
  assumes "world_in_bounds a w"
  shows "world_in_bounds a (simulate_war d yr w)"
  unfolding simulate_war_def simulate_war_body_def
  using assms by (auto split: option.splits intro!: bounds_for_each bounds_conflict)

lemma bounds_align_with:
  "world_in_bounds a w \<Longrightarrow> world_in_bounds a (align_with i j w)"
  unfolding align_with_def Let_def
  by (auto intro!: bounds_upc bounds_update_tension simp: actor_in_bounds_def)

lemma bounds_join_effects:
  assumes "world_in_bounds a w"
  shows "world_in_bounds a (state_of (join_effects i w))"
  unfolding join_effects_def
  using assms
  by (intro bounds_run)
    (auto simp: actor_in_bounds_def ecosystem_in_bounds_def
      intro!: bounds_upc bounds_upe bounds_fold bounds_align_with)

lemma bounds_refuse_effects:
  assumes "world_in_bounds a w"
  shows "world_in_bounds a (state_of (refuse_effects i w))"
  unfolding refuse_effects_def
  using assms
  by (intro bounds_run) (auto simp: actor_in_bounds_def intro!: bounds_upc bounds_rp_add)

lemma bounds_join:
  assumes "world_in_bounds a w"
  shows "world_in_bounds a (join_environment_agreement d i w)"
proof -
  have touch: "\<And>q. world_in_bounds a
      (upd_country i (\<lambda>c. c\<lparr>agent := (agent c)\<lparr>agree_q := q\<rparr>\<rparr>) w)"
    using assms by (rule bounds_upc) (simp add: agent_update_in_bounds)
  show ?thesis
    unfolding join_environment_agreement_def join_environment_agreement_body_def Let_def
    using assms
    by (auto intro!: bounds_and_then bounds_join_effects bounds_refuse_effects touch bounds_upc
        agent_update_in_bounds)
qed

lemma bounds_exchange:
  "world_in_bounds a w \<Longrightarrow> world_in_bounds a (exchange i j r x w)"
  unfolding exchange_def
  by (intro bounds_upc) (simp_all add: actor_in_bounds_def)

lemma bounds_trade:
  assumes "world_in_bounds a w"
  shows "world_in_bounds a (trade_resources d i j w)"
proof (cases "trade_branch d i j w")
  case (Accepted r x)
  have "world_in_bounds a (state_of (run
            [lift (exchange i j r x),
             lift (upd_country i (\<lambda>c. c\<lparr>pollution := pollution c + pollution_increase r\<rparr>)),
             (\<lambda>w. rp_add (name (countries w ! i)) (pollution_increase r) w),
             lift (update_tension i j (-5)),
             lift (update_tension j i (-5))]
            w))"
    using assms
    by (intro bounds_run)
      (auto simp: actor_in_bounds_def
        intro!: bounds_exchange bounds_upc bounds_rp_add bounds_update_tension)
  then show ?thesis
    using Accepted by (simp add: trade_resources_def trade_resources_body_def)
qed (use assms in \<open>simp_all add: trade_resources_def trade_resources_body_def bounds_update_tension\<close>)

lemma bounds_taxes:
  "world_in_bounds a w \<Longrightarrow> world_in_bounds a (collect_taxes i w)"
  unfolding collect_taxes_def by (rule bounds_upc) (simp_all add: effects_in_bounds)

lemma bounds_rebellion:
  "world_in_bounds a w \<Longrightarrow> world_in_bounds a (rebellion d i w)"
  unfolding rebellion_def by (rule bounds_upc) (simp_all add: rebellion_effect_in_bounds)

lemma bounds_invest_economy:
  assumes "world_in_bounds a w" and "0 \<le> eff"
  shows "world_in_bounds a (state_of (invest_economy i eff w))"
  unfolding invest_economy_def Let_def
  using assms
  by (intro bounds_run) (auto simp: actor_in_bounds_def intro!: bounds_upc bounds_rp_add)

lemma bounds_clean_region:
  assumes "world_in_bounds a w" and "0 \<le> inc"
  shows "world_in_bounds a (state_of (clean_region n dec inc eff w))"
  using assms
  by (auto simp: clean_region_def ecosystem_in_bounds_def intro!: bounds_upe split: option.splits)

lemma bounds_invest_environment:
  assumes "world_in_bounds a w" and "0 \<le> eff"
  shows "world_in_bounds a (state_of (invest_environment i eff w))"
  unfolding invest_environment_def Let_def
  using assms
  by (intro bounds_run) (auto simp: actor_in_bounds_def intro!: bounds_upc bounds_clean_region)

lemma bounds_invest_infrastructure:
  assumes "world_in_bounds a w" and "0 \<le> eff"
  shows "world_in_bounds a (state_of (invest_infrastructure i eff w))"
  unfolding invest_infrastructure_def Let_def
  using assms
  by (auto simp: actor_in_bounds_def intro!: bounds_upc)

lemma bounds_invest:
  assumes "world_in_bounds a w"
  shows "world_in_bounds a (state_of (invest t i w))"
proof -
  have "world_in_bounds a (upd_country i
                 (\<lambda>c. c\<lparr>money := money c - x,
                        investments := (investments c)(t := investments c t + x)\<rparr>)
                 w)" for x
    using assms by (rule bounds_upc) (simp add: actor_in_bounds_def)
  then show ?thesis
    unfolding invest_def Let_def invest_effects_def
    by (auto split: invest_action.splits
        intro!: bounds_invest_economy bounds_invest_environment bounds_invest_infrastructure
          efficiency_pos[THEN less_imp_le])
qed

lemma bounds_make_investment_decision:
  assumes "world_in_bounds a w"
  shows "world_in_bounds a (make_investment_decision d i w)"
proof -
  have touch: "\<And>q. world_in_bounds a
      (upd_country i (\<lambda>c. c\<lparr>agent := (agent c)\<lparr>invest_q := q\<rparr>\<rparr>) w)"
    using assms by (rule bounds_upc) (simp add: agent_update_in_bounds)
  show ?thesis
    unfolding make_investment_decision_def make_investment_decision_body_def Let_def
    using assms
    by (auto intro!: bounds_and_then bounds_invest touch bounds_upc agent_update_in_bounds)
qed

lemma bounds_consumption:
  "world_in_bounds a w \<Longrightarrow> world_in_bounds a (state_of (consumption i w))"
  by (auto simp: consumption_def Let_def intro!: bounds_rp_add bounds_upc turn_effects_in_bounds)

lemma bounds_industry_pollution:
  "world_in_bounds a w \<Longrightarrow> world_in_bounds a (state_of (industry_pollution i w))"
  by (auto simp: industry_pollution_def Let_def actor_in_bounds_def intro!: bounds_rp_add bounds_upc)

lemma bounds_forest_feedback:
  "world_in_bounds a w \<Longrightarrow> world_in_bounds a (forest_feedback i w)"
  by (auto simp: forest_feedback_def Let_def actor_in_bounds_def ecosystem_in_bounds_def
      intro!: bounds_upe bounds_upc)

lemma bounds_trade_with_partner:
  "world_in_bounds a w \<Longrightarrow> world_in_bounds a (state_of (trade_with_partner d i w))"
  by (simp add: trade_with_partner_def Let_def bounds_trade)

lemma bounds_rebellion_check:
  "world_in_bounds a w \<Longrightarrow> world_in_bounds a (rebellion_check d i w)"
  by (simp add: rebellion_check_def Let_def bounds_rebellion)

lemma bounds_simulate_turn:
  assumes "world_in_bounds a w"
  shows "world_in_bounds a (simulate_turn d i w)"
  unfolding simulate_turn_def simulate_turn_body_def
  using assms
  by (intro bounds_run)
    (auto intro!: bounds_upc turn_effects_in_bounds bounds_consumption bounds_industry_pollution
      bounds_forest_feedback bounds_trade_with_partner bounds_rebellion_check bounds_taxes
      bounds_join bounds_make_investment_decision)

lemma bounds_operation:
  assumes "operation w w'" and "world_in_bounds a w"
  shows "world_in_bounds a w'"
  using assms
  by (induction rule: operation.induct)
    (simp_all add: bounds_global_events bounds_simulate_war bounds_simulate_turn
      bounds_update_pollution bounds_sound_alarm bounds_trigger_disasters bounds_update_tension
      bounds_join bounds_trade bounds_taxes bounds_make_investment_decision bounds_rebellion)

lemma bounds_operations:
  assumes "operation\<^sup>*\<^sup>* w w'" and "world_in_bounds a w"
  shows "world_in_bounds a w'"
  using assms by (induction rule: rtranclp_induct) (auto intro: bounds_operation)

lemma new_country_in_bounds: "actor_in_bounds (new_country d n ag)"
  by (simp add: actor_in_bounds_def new_country_def Let_def)

lemma bounds_initial_tension:
  "world_in_bounds a w \<Longrightarrow> world_in_bounds a (initial_tension t p w)"
  using randint_range[of 40 60 "t (fst p) (snd p)"]
  by (auto simp: initial_tension_def actor_in_bounds_def intro!: bounds_upc)

lemma bounds_episode_start: "world_in_bounds 0 (episode_start d ag t)"
proof -
  have "world_in_bounds 0 (new_world (map (\<lambda>n. new_country (d n) n (ag n)) names))"
    by (simp add: world_in_bounds_def new_world_def new_ecosystem_def ecosystem_in_bounds_def
        list_all_iff new_country_in_bounds)
  then show ?thesis
    unfolding episode_start_def Let_def
    by (intro bounds_fold bounds_initial_tension)
qed

lemma bounds_reachable: "reachable w \<Longrightarrow> world_in_bounds 0 w"
  by (induction rule: reachable.induct) (auto intro: bounds_episode_start bounds_operation)

text \<open>
  C2. In every state that calls of the program's methods reach from the start of an
  episode, and in every state reached from there by further calls: every actor's
  happiness is between 0 and 100, its rebellion risk is not negative and each of its
  tension scores is between 0 and 100; ecosystem health is between 0 and 100; the alarm
  level is 0, 1, 2 or 3 and is not below the level of the earlier state.
\<close>

theorem bounds_invariant:
  assumes "reachable w" and "operation\<^sup>*\<^sup>* w w'"
  shows "(\<forall>c\<in>set (countries w').
            0 \<le> happiness c \<and> happiness c \<le> 100 \<and> 0 \<le> rebellion_risk c
            \<and> (\<forall>n t. tension_score c n = Some t \<longrightarrow> 0 \<le> t \<and> t \<le> 100))
       \<and> 0 \<le> ecosystem_health (ecosystem w') \<and> ecosystem_health (ecosystem w') \<le> 100
       \<and> alarm_level (ecosystem w') \<in> {0, 1, 2, 3}
       \<and> alarm_level (ecosystem w) \<le> alarm_level (ecosystem w')"
proof -
  have "world_in_bounds 0 w" using assms(1) by (rule bounds_reachable)
  then have "world_in_bounds (alarm_level (ecosystem w)) w"
    by (simp add: world_in_bounds_def ecosystem_in_bounds_def)
  then have "world_in_bounds (alarm_level (ecosystem w)) w'"
    using assms(2) bounds_operations by blast
  then show ?thesis
    by (simp add: world_in_bounds_def ecosystem_in_bounds_def list_all_iff actor_in_bounds_def)
qed

theorem bounds_invariant_witness:
  "reachable (episode_start (\<lambda>n. zero_draws) (\<lambda>n. no_agent) (\<lambda>i j. 0))
   \<and> operation\<^sup>*\<^sup>* (episode_start (\<lambda>n. zero_draws) (\<lambda>n. no_agent) (\<lambda>i j. 0))
        (simulate_war example_war 1 (simulate_global_events quiet_events 1
           (episode_start (\<lambda>n. zero_draws) (\<lambda>n. no_agent) (\<lambda>i j. 0))))
   \<and> ecosystem_health (ecosystem (simulate_war example_war 1 (simulate_global_events quiet_events 1
           (episode_start (\<lambda>n. zero_draws) (\<lambda>n. no_agent) (\<lambda>i j. 0))))) \<le> 100
   \<and> alarm_level (ecosystem (episode_start (\<lambda>n. zero_draws) (\<lambda>n. no_agent) (\<lambda>i j. 0)))
       \<le> alarm_level (ecosystem (simulate_war example_war 1 (simulate_global_events quiet_events 1
           (episode_start (\<lambda>n. zero_draws) (\<lambda>n. no_agent) (\<lambda>i j. 0)))))"
proof -
  let ?w = "episode_start (\<lambda>n. zero_draws) (\<lambda>n. no_agent) (\<lambda>i j. 0)"
  let ?w1 = "simulate_global_events quiet_events 1 ?w"
  let ?w2 = "simulate_war example_war 1 ?w1"
  have r: "reachable ?w" by (rule reachable.start)
  have "operation ?w ?w1" by (rule op_global_events)
  moreover have "operation ?w1 ?w2" by (rule op_war)
  ultimately have s: "operation\<^sup>*\<^sup>* ?w ?w2" by auto
  show ?thesis
    using bounds_invariant[OF r s] r s by simp
qed

section \<open>The done flag of a year\<close>

lemma done_rp_add [simp]:
  "global_events_done (state_of (rp_add n x w)) = global_events_done w"
  by (simp add: rp_add_def split: option.splits)

lemmas done_for_each = for_each_pres[where P = "\<lambda>s. global_events_done s = D" for D]
lemmas done_and_then = and_then_pres[where P = "\<lambda>s. global_events_done s = D" for D]
lemmas done_fold = fold_pres[where P = "\<lambda>s. global_events_done s = D" for D]

lemma done_run:
  assumes "list_all (\<lambda>f. \<forall>s. global_events_done s = D \<longrightarrow> global_events_done (state_of (f s)) = D) fs"
    and "global_events_done s = D"
  shows "global_events_done (state_of (run fs s)) = D"
  using assms by (intro run_pres[where P = "\<lambda>s. global_events_done s = D"]) (auto simp: list_all_iff)

lemma done_event_phase:
  "global_events_done w = D \<Longrightarrow> global_events_done (state_of (event_phase ev effect x w)) = D"
  by (auto simp: event_phase_def event_country_def intro!: done_for_each)

lemma done_update_pollution: "global_events_done (update_pollution w) = global_events_done w"
  using loop_keeps[of "indices w" "(Map.empty, upd_ecosystem (\<lambda>e. e\<lparr>global_pollution := sum_list (map pollution (countries w)) / real (length (countries w))\<rparr>) w)"]
  by (simp add: update_pollution_def update_pollution_body_def Let_def)

lemma done_sound_alarm: "global_events_done (sound_alarm w) = global_events_done w"
  by (simp add: sound_alarm_def)

lemma done_trigger_disasters:
  "global_events_done w = D \<Longrightarrow> global_events_done (trigger_disasters d w) = D"
  unfolding trigger_disasters_def trigger_disasters_body_def
  by (intro done_and_then)
    (auto simp: disease_def earthquake_def flood_def split: list.splits intro!: done_fold)

lemma done_after_events:
  assumes "global_events_done w yr = Some False"
  shows "global_events_done (simulate_global_events d yr w) = (global_events_done w)(yr \<mapsto> True)"
proof -
  let ?D = "(global_events_done w)(yr \<mapsto> True)"
  let ?w1 = "w\<lparr>global_events_done := ?D\<rparr>"
  have "global_events_done (state_of (run
            [lift (draw_global_events d),
             event_phase Pandemic (\<lambda>i. pandemic_effect) 2,
             event_phase Meteor (\<lambda>i. meteor_effect (meteor_loss d i)) 3,
             event_phase Economic_crash (\<lambda>i. economic_crash_effect) 3,
             event_phase Blackout (\<lambda>i. blackout_effect) 2,
             lift update_pollution,
             lift sound_alarm,
             lift (trigger_disasters (disasters d))]
            ?w1)) = ?D"
    by (intro done_run)
      (simp_all add: draw_global_events_def done_event_phase done_update_pollution
        done_sound_alarm done_trigger_disasters)
  then show ?thesis
    using assms by (simp add: simulate_global_events_def simulate_global_events_body_def run_Cons)
qed

lemma events_skipped:
  "global_events_done w yr \<noteq> Some False \<Longrightarrow> simulate_global_events d yr w = w"
  by (auto simp: simulate_global_events_def simulate_global_events_body_def split: option.splits)

lemma war_skipped:
  "global_events_done w yr \<noteq> Some False \<Longrightarrow> simulate_war d yr w = w"
  by (auto simp: simulate_war_def simulate_war_body_def split: option.splits)

lemma not_pending_after_events:
  "global_events_done (simulate_global_events d yr w) yr \<noteq> Some False"
proof (cases "global_events_done w yr = Some False")
  case True
  then show ?thesis by (simp add: done_after_events)
next
  case False
  then show ?thesis by (simp add: events_skipped)
qed

section \<open>Global events fire once per year\<close>

text \<open>
  C3. A second call of \<open>simulate_global_events\<close> for the same year, with any draws,
  changes nothing: the world after it is the world after the first call.
\<close>

theorem global_events_idempotent:
  "simulate_global_events d2 yr (simulate_global_events d1 yr w) = simulate_global_events d1 yr w"
  using not_pending_after_events by (rule events_skipped)

section \<open>War after the events of a year\<close>

lemma war_after_events:
  "simulate_war wd yr (simulate_global_events ed yr w) = simulate_global_events ed yr w"
  using not_pending_after_events by (rule war_skipped)

lemma example_potential_wars: "potential_wars example_world = [(0, 1)]"
  by (simp add: potential_wars_def indices_def example_countries example_country_def
      war_tension_def tension_get_def example_world_def upt_rec)

lemma example_done: "global_events_done example_world 1 = Some False"
  by (simp add: example_world_def)

lemma example_ecosystem:
  "ecosystem example_world =
     \<lparr>global_pollution = 40, regional_pollution = [''A'' \<mapsto> 62, ''B'' \<mapsto> 26],
      ecosystem_health = 80, alarm_level = 0\<rparr>"
  by (simp add: example_world_def)

lemma transfer_resource_fields [simp]:
  "ecosystem (transfer_resource i j r w) = ecosystem w"
  "name (countries (transfer_resource i j r w) ! m) = name (countries w ! m)"
  "length (countries (transfer_resource i j r w)) = length (countries w)"
  by (simp_all add: transfer_resource_def Let_def upc_nth_if)

lemma war_effect_names [simp]:
  "name (winner_effect c) = name c" "name (loser_effect c) = name c"
  by (simp_all add: winner_effect_def loser_effect_def)

lemma example_war_health:
  "ecosystem_health (ecosystem (simulate_war example_war 1 example_world)) = 65"
  by (simp add: simulate_war_def simulate_war_body_def example_potential_wars example_war_def
      example_done example_ecosystem example_countries example_country_def
      conflict_def Let_def attack_draws_def choose_action_def epsilon_def war_keys_def
      keys_list_def combat_score_def tension_get_def war_effects_def run_Cons rp_add_def
      upc_nth_if learn_war_def peace_agreement_def resource_keys_def)

lemma diplomacy_upc:
  assumes "\<And>c. name (f c) = name c" and "\<And>c. tension_score (f c) = tension_score c"
  shows "diplomacy (upd_country i f w) = diplomacy w"
  unfolding diplomacy_def by (rule map_upc) (simp add: assms)

lemma diplomacy_simps [simp]:
  "diplomacy (upd_ecosystem g w) = diplomacy w"
  "diplomacy (w\<lparr>global_events_done := x\<rparr>) = diplomacy w"
  "diplomacy (w\<lparr>global_events := y\<rparr>) = diplomacy w"
  "diplomacy (state_of (rp_add n v w)) = diplomacy w"
  by (simp_all add: diplomacy_def rp_add_def split: option.splits)

lemma diplomacy_effects [simp]:
  "diplomacy (upd_country i pollution_penalty w) = diplomacy w"
  "diplomacy (upd_country i disease_effect w) = diplomacy w"
  "diplomacy (upd_country i earthquake_effect w) = diplomacy w"
  "diplomacy (upd_country i flood_effect w) = diplomacy w"
  "diplomacy (upd_country i pandemic_effect w) = diplomacy w"
  "diplomacy (upd_country i (meteor_effect l) w) = diplomacy w"
  "diplomacy (upd_country i economic_crash_effect w) = diplomacy w"
  "diplomacy (upd_country i blackout_effect w) = diplomacy w"
  by (rule diplomacy_upc;
      simp add: pollution_penalty_def disease_effect_def earthquake_effect_def flood_effect_def
        pandemic_effect_def meteor_effect_def economic_crash_effect_def blackout_effect_def Let_def)+

lemmas diplomacy_for_each = for_each_pres[where P = "\<lambda>s. diplomacy s = D" for D]
lemmas diplomacy_and_then = and_then_pres[where P = "\<lambda>s. diplomacy s = D" for D]
lemmas diplomacy_fold = fold_pres[where P = "\<lambda>s. diplomacy s = D" for D]

lemma diplomacy_run:
  assumes "list_all (\<lambda>f. \<forall>s. diplomacy s = D \<longrightarrow> diplomacy (state_of (f s)) = D) fs"
    and "diplomacy s = D"
  shows "diplomacy (state_of (run fs s)) = D"
  using assms by (intro run_pres[where P = "\<lambda>s. diplomacy s = D"]) (auto simp: list_all_iff)

lemma diplomacy_event_phase:
  assumes "\<And>i w. diplomacy (upd_country i (effect i) w) = diplomacy w"
    and "diplomacy w = D"
  shows "diplomacy (state_of (event_phase ev effect x w)) = D"
  using assms by (auto simp: event_phase_def event_country_def intro!: diplomacy_for_each)

lemma diplomacy_update_pollution: "diplomacy (update_pollution w) = diplomacy w"
proof (cases "countries w = []")
  case True
  then show ?thesis by (simp add: update_pollution_def update_pollution_body_def)
next
  case False
  let ?w1 = "upd_ecosystem (\<lambda>e. e\<lparr>global_pollution := sum_list (map pollution (countries w)) / real (length (countries w))\<rparr>) w"
  have "diplomacy (snd (fold update_pollution_country (indices w) (Map.empty, ?w1))) = diplomacy w"
    by (rule fold_pres[where P = "\<lambda>st. diplomacy (snd st) = diplomacy w"])
      (simp_all add: update_pollution_country_def Let_def)
  then show ?thesis
    using False by (simp add: update_pollution_def update_pollution_body_def Let_def)
qed

lemma diplomacy_trigger_disasters:
  "diplomacy w = D \<Longrightarrow> diplomacy (trigger_disasters d w) = D"
  unfolding trigger_disasters_def trigger_disasters_body_def
  by (intro diplomacy_and_then)
    (auto simp: disease_def earthquake_def flood_def split: list.splits intro!: diplomacy_fold)

lemma diplomacy_global_events:
  "diplomacy (simulate_global_events d yr w) = diplomacy w"
proof (cases "global_events_done w yr = Some False")
  case True
  have "diplomacy (state_of (run
            [lift (\<lambda>w. w\<lparr>global_events_done := (global_events_done w)(yr \<mapsto> True)\<rparr>),
             lift (draw_global_events d),
             event_phase Pandemic (\<lambda>i. pandemic_effect) 2,
             event_phase Meteor (\<lambda>i. meteor_effect (meteor_loss d i)) 3,
             event_phase Economic_crash (\<lambda>i. economic_crash_effect) 3,
             event_phase Blackout (\<lambda>i. blackout_effect) 2,
             lift update_pollution,
             lift sound_alarm,
             lift (trigger_disasters (disasters d))]
            w)) = diplomacy w"
    by (intro diplomacy_run)
      (simp_all add: draw_global_events_def diplomacy_event_phase diplomacy_update_pollution
        sound_alarm_def diplomacy_trigger_disasters)
  then show ?thesis
    using True by (simp add: simulate_global_events_def simulate_global_events_body_def)
next
  case False
  then show ?thesis by (simp add: events_skipped)
qed

lemma potential_warsI:
  assumes "diplomacy w = diplomacy w0" and "i < length (countries w0)" and "j < length (countries w0)"
    and "i \<noteq> j" and "70 < tension_get (countries w0 ! i) (name (countries w0 ! j))"
  shows "(i, j) \<in> set (potential_wars w)"
proof -
  have len: "length (countries w) = length (countries w0)"
    using assms(1) unfolding diplomacy_def by (metis length_map)
  have nth: "\<And>k. k < length (countries w0) \<Longrightarrow>
      name (countries w ! k) = name (countries w0 ! k)
      \<and> tension_score (countries w ! k) = tension_score (countries w0 ! k)"
  proof -
    fix k assume k: "k < length (countries w0)"
    have "map (\<lambda>c. (name c, tension_score c)) (countries w) ! k
        = map (\<lambda>c. (name c, tension_score c)) (countries w0) ! k"
      using assms(1) by (simp add: diplomacy_def)
    then show "name (countries w ! k) = name (countries w0 ! k)
      \<and> tension_score (countries w ! k) = tension_score (countries w0 ! k)"
      using k len by simp
  qed
  have "tension_get (countries w ! i) (name (countries w ! j))
      = tension_get (countries w0 ! i) (name (countries w0 ! j))"
    using nth[OF assms(2)] nth[OF assms(3)] by (simp add: tension_get_def)
  then have "70 < war_tension w i j"
    using assms(5) by (simp add: war_tension_def)
  then show ?thesis
    using assms(2-4) len by (simp add: potential_wars_def indices_def)
qed

text \<open>
  C1. In the example world the first country holds a tension of 80 towards the second.
  After the global events of year 1 this pair is still a candidate for war and the
  draws make the attacker's agent choose to attack, yet \<open>simulate_war\<close> for year 1
  returns the world unchanged, because the events have set the done flag of the year
  that \<open>simulate_war\<close> tests first; the year of \<open>simulate_world\<close> is the events followed
  by the turns. Called before the events, with the same draws, \<open>simulate_war\<close> resolves
  the conflict and ecosystem health drops by 15.
\<close>

theorem war_never_follows_events:
  "(0, 1) \<in> set (potential_wars (simulate_global_events quiet_events 1 example_world))
   \<and> fst (choose_action war_keys (action_u attack_draws) (action_k attack_draws) q s) = Attack
   \<and> simulate_war example_war 1 (simulate_global_events quiet_events 1 example_world)
       = simulate_global_events quiet_events 1 example_world
   \<and> simulate_year example_year 1 example_world
       = fold (\<lambda>i. simulate_turn quiet_turn i)
           (indices (simulate_global_events quiet_events 1 example_world))
           (simulate_global_events quiet_events 1 example_world)
   \<and> ecosystem_health (ecosystem (simulate_war example_war 1 example_world))
       = ecosystem_health (ecosystem example_world) - 15"
proof -
  have "(0, 1) \<in> set (potential_wars (simulate_global_events quiet_events 1 example_world))"
    by (rule potential_warsI[OF diplomacy_global_events])
      (simp_all add: example_countries example_country_def tension_get_def)
  moreover have "fst (choose_action war_keys (action_u attack_draws) (action_k attack_draws) q s) = Attack"
    by (simp add: choose_action_def attack_draws_def epsilon_def war_keys_def keys_list_def Let_def)
  ultimately show ?thesis
    by (simp add: war_after_events example_war_health example_ecosystem simulate_year_def
        example_year_def Let_def)
qed

end
